theory Spec2Isabelle
  imports Main "HOL-Library.Word"
begin

section \<open>The Go values that main.go works with\<close>

text \<open>
  The program is one Go file: \<open>errResponse\<close>, \<open>resizer\<close> and \<open>handler\<close>. Everything else it
  calls is a library. The small pure library functions (\<open>strconv.Atoi\<close>, \<open>strings.Join\<close>,
  \<open>strings.Contains\<close>, \<open>http.StatusText\<close>, \<open>errors.WithMessage\<close>,
  \<open>base64.StdEncoding.EncodeToString\<close>) are written out below. The object store, the image
  codec, the resampling arithmetic and the time formatter are fields of the record \<open>Env\<close>:
  the program's functions take them as a parameter.
\<close>

type_synonym byte = "8 word"

text \<open>Seconds since the epoch stand for a \<open>time.Time\<close>.\<close>

type_synonym Time = int

text \<open>
  Go's \<open>error\<close> values, as far as the program tells them apart: the number errors of
  \<open>strconv\<close>, an \<open>awserr.Error\<close> with its code and message, any other error, and the
  wrapper \<open>withMessage\<close> of \<open>github.com/pkg/errors\<close>. A nil error is \<open>None\<close> of
  \<open>error option\<close>.
\<close>

datatype error =
    ErrSyntax string
  | ErrRange string
  | AwsError string string
  | OtherError string
  | withMessage error string

subsection \<open>github.com/pkg/errors\<close>

text \<open>\<open>WithMessage\<close> returns nil for a nil cause, and wraps any other cause.\<close>

fun WithMessage :: "error option \<Rightarrow> string \<Rightarrow> error option" where
  "WithMessage None message = None"
| "WithMessage (Some err) message = Some (withMessage err message)"

subsection \<open>strconv.Atoi\<close>

text \<open>
  A byte is a decimal digit when, after subtracting \<open>'0'\<close> in byte arithmetic, it is at
  most 9 (the test of \<open>strconv\<close>).
\<close>

definition digitVal :: "char \<Rightarrow> nat option" where
  "digitVal ch = (let d = (of_char ch + 256 - 48) mod 256 in if d > (9::nat) then None else Some d)"

text \<open>
  \<open>ParseUint(s, 10, 0)\<close> on a 64-bit platform. The loop reads the bytes from the left. A
  byte that is not a decimal digit ends it with a syntax error and the value 0. A digit
  that would take the number past \<open>2^64 - 1\<close> ends it with a range error and the value
  \<open>2^64 - 1\<close>: what follows that digit is not looked at. \<open>s0\<close> is the string the error
  reports.
\<close>

definition maxUint64 :: nat where
  "maxUint64 = 2 ^ 64 - 1"

definition cutoff :: nat where
  "cutoff = maxUint64 div 10 + 1"

fun parseUintLoop :: "string \<Rightarrow> string \<Rightarrow> nat \<Rightarrow> nat \<times> error option" where
  "parseUintLoop s0 [] n = (n, None)"
| "parseUintLoop s0 (c # cs) n =
     (case digitVal c of
        None \<Rightarrow> (0, Some (ErrSyntax s0))
      | Some d \<Rightarrow>
          if n \<ge> cutoff then (maxUint64, Some (ErrRange s0))
          else
            (let n1 = n * 10 + d
             in if n1 > maxUint64 then (maxUint64, Some (ErrRange s0))
                else parseUintLoop s0 cs n1))"

definition ParseUint :: "string \<Rightarrow> nat \<times> error option" where
  "ParseUint s = (if s = [] then (0, Some (ErrSyntax s)) else parseUintLoop s s 0)"

text \<open>
  \<open>ParseInt(s, 10, 0)\<close>: a leading sign is taken off, the rest goes to \<open>ParseUint\<close>. A
  syntax error gives 0. Otherwise a value that does not fit a signed 64-bit \<open>int\<close>, a
  range error of \<open>ParseUint\<close> included, gives the nearest bound and a range error.
\<close>

definition ParseInt :: "string \<Rightarrow> int \<times> error option" where
  "ParseInt s =
     (case s of
        [] \<Rightarrow> (0, Some (ErrSyntax s))
      | c # cs \<Rightarrow>
          (let neg = (c = CHR ''-'');
               digits = (if c = CHR ''+'' \<or> c = CHR ''-'' then cs else s)
           in case ParseUint digits of
                (un, Some (ErrSyntax num)) \<Rightarrow> (0, Some (ErrSyntax s))
              | (un, err) \<Rightarrow>
                  if \<not> neg \<and> un \<ge> 2 ^ 63 then (2 ^ 63 - 1, Some (ErrRange s))
                  else if neg \<and> un > 2 ^ 63 then (- (2 ^ 63), Some (ErrRange s))
                  else (if neg then - int un else int un, None)))"

text \<open>
  \<open>Atoi\<close> on a 64-bit platform. A string of 1 to 18 bytes takes the fast path: a sign,
  then digits only, which cannot overflow. Every other string goes to \<open>ParseInt\<close>.
\<close>

fun atoiLoop :: "string \<Rightarrow> int \<Rightarrow> int option" where
  "atoiLoop [] n = Some n"
| "atoiLoop (ch # s) n =
     (case digitVal ch of None \<Rightarrow> None | Some d \<Rightarrow> atoiLoop s (n * 10 + int d))"

definition Atoi :: "string \<Rightarrow> int \<times> error option" where
  "Atoi s =
     (case s of
        [] \<Rightarrow> ParseInt s
      | c # cs \<Rightarrow>
          if length s < 19 then
            (let digits = (if c = CHR ''-'' \<or> c = CHR ''+'' then cs else s)
             in if digits = [] then (0, Some (ErrSyntax s))
                else (case atoiLoop digits 0 of
                        None \<Rightarrow> (0, Some (ErrSyntax s))
                      | Some n \<Rightarrow> (if c = CHR ''-'' then - n else n, None)))
          else ParseInt s)"

subsection \<open>strings\<close>

fun HasPrefix :: "string \<Rightarrow> string \<Rightarrow> bool" where
  "HasPrefix s [] = True"
| "HasPrefix [] (p # ps) = False"
| "HasPrefix (c # cs) (p # ps) = (c = p \<and> HasPrefix cs ps)"

text \<open>\<open>Index\<close> is the position of the first occurrence of \<open>substr\<close> in \<open>s\<close>, or -1.\<close>

fun Index :: "string \<Rightarrow> string \<Rightarrow> int" where
  "Index [] substr = (if substr = [] then 0 else - 1)"
| "Index (c # cs) substr =
     (if HasPrefix (c # cs) substr then 0
      else (let i = Index cs substr in if i < 0 then - 1 else i + 1))"

definition Contains :: "string \<Rightarrow> string \<Rightarrow> bool" where
  "Contains s substr = (Index s substr \<ge> 0)"

fun Join :: "string list \<Rightarrow> string \<Rightarrow> string" where
  "Join [] sep = []"
| "Join [a] sep = a"
| "Join (a # b # elems) sep = a @ sep @ Join (b # elems) sep"

subsection \<open>net/http\<close>

definition StatusBadRequest :: int where "StatusBadRequest = 400"
definition StatusNotFound :: int where "StatusNotFound = 404"
definition StatusInternalServerError :: int where "StatusInternalServerError = 500"

definition statusText :: "(int \<times> string) list" where
  "statusText =
    [(100, ''Continue''), (101, ''Switching Protocols''), (102, ''Processing''),
     (103, ''Early Hints''),
     (200, ''OK''), (201, ''Created''), (202, ''Accepted''),
     (203, ''Non-Authoritative Information''), (204, ''No Content''),
     (205, ''Reset Content''), (206, ''Partial Content''), (207, ''Multi-Status''),
     (208, ''Already Reported''), (226, ''IM Used''),
     (300, ''Multiple Choices''), (301, ''Moved Permanently''), (302, ''Found''),
     (303, ''See Other''), (304, ''Not Modified''), (305, ''Use Proxy''),
     (307, ''Temporary Redirect''), (308, ''Permanent Redirect''),
     (400, ''Bad Request''), (401, ''Unauthorized''), (402, ''Payment Required''),
     (403, ''Forbidden''), (404, ''Not Found''), (405, ''Method Not Allowed''),
     (406, ''Not Acceptable''), (407, ''Proxy Authentication Required''),
     (408, ''Request Timeout''), (409, ''Conflict''), (410, ''Gone''),
     (411, ''Length Required''), (412, ''Precondition Failed''),
     (413, ''Request Entity Too Large''), (414, ''Request URI Too Long''),
     (415, ''Unsupported Media Type''), (416, ''Requested Range Not Satisfiable''),
     (417, ''Expectation Failed''), (418, ''I'' @ [CHR 0x27] @ ''m a teapot''),
     (421, ''Misdirected Request''), (422, ''Unprocessable Entity''), (423, ''Locked''),
     (424, ''Failed Dependency''), (425, ''Too Early''), (426, ''Upgrade Required''),
     (428, ''Precondition Required''), (429, ''Too Many Requests''),
     (431, ''Request Header Fields Too Large''),
     (451, ''Unavailable For Legal Reasons''),
     (500, ''Internal Server Error''), (501, ''Not Implemented''), (502, ''Bad Gateway''),
     (503, ''Service Unavailable''), (504, ''Gateway Timeout''),
     (505, ''HTTP Version Not Supported''), (506, ''Variant Also Negotiates''),
     (507, ''Insufficient Storage''), (508, ''Loop Detected''), (510, ''Not Extended''),
     (511, ''Network Authentication Required'')]"

text \<open>\<open>StatusText\<close> is the empty string for a code that is not in the table.\<close>

definition StatusText :: "int \<Rightarrow> string" where
  "StatusText code = (case map_of statusText code of None \<Rightarrow> [] | Some text \<Rightarrow> text)"

subsection \<open>encoding/base64\<close>

definition encodeStd :: string where
  "encodeStd = ''ABCDEFGHIJKLMNOPQRSTUVWXYZabcdefghijklmnopqrstuvwxyz0123456789+/''"

text \<open>
  \<open>StdEncoding.EncodeToString\<close>: three source bytes make the 24-bit value
  \<open>uint(a)<<16 | uint(b)<<8 | uint(c)\<close>, whose four 6-bit fields \<open>val>>18&0x3F\<close>,
  \<open>val>>12&0x3F\<close>, \<open>val>>6&0x3F\<close>, \<open>val&0x3F\<close> index the alphabet. The shifts and
  masks are written as \<open>div\<close> and \<open>mod\<close> on \<open>nat\<close>. A last block of one or two bytes is
  padded with \<open>=\<close>.
\<close>

definition sextet :: "nat \<Rightarrow> nat \<Rightarrow> char" where
  "sextet val shift = encodeStd ! (val div 2 ^ shift mod 64)"

fun EncodeToString :: "byte list \<Rightarrow> string" where
  "EncodeToString [] = []"
| "EncodeToString [a] =
     (let val = unat a * 2 ^ 16
      in [sextet val 18, sextet val 12, CHR ''='', CHR ''=''])"
| "EncodeToString [a, b] =
     (let val = unat a * 2 ^ 16 + unat b * 2 ^ 8
      in [sextet val 18, sextet val 12, sextet val 6, CHR ''=''])"
| "EncodeToString (a # b # c # src) =
     (let val = unat a * 2 ^ 16 + unat b * 2 ^ 8 + unat c
      in [sextet val 18, sextet val 12, sextet val 6, sextet val 0] @ EncodeToString src)"

text \<open>
  The decoder of RFC 4648 for the same alphabet, to state the round trip: four characters
  give three bytes, and the last block may end in one or two \<open>=\<close>.
\<close>

fun indexOf :: "'a \<Rightarrow> 'a list \<Rightarrow> nat option" where
  "indexOf x [] = None"
| "indexOf x (y # ys) = (if x = y then Some 0 else map_option Suc (indexOf x ys))"

definition decodeChar :: "char \<Rightarrow> nat option" where
  "decodeChar ch = indexOf ch encodeStd"

fun DecodeString :: "string \<Rightarrow> byte list option" where
  "DecodeString [] = Some []"
| "DecodeString (c0 # c1 # c2 # c3 # s) =
     (if c3 = CHR ''='' then
        (if s \<noteq> [] then None
         else if c2 = CHR ''='' then
           (case (decodeChar c0, decodeChar c1) of
              (Some v0, Some v1) \<Rightarrow>
                Some [of_nat ((v0 * 2 ^ 18 + v1 * 2 ^ 12) div 2 ^ 16)]
            | _ \<Rightarrow> None)
         else
           (case (decodeChar c0, decodeChar c1, decodeChar c2) of
              (Some v0, Some v1, Some v2) \<Rightarrow>
                (let val = v0 * 2 ^ 18 + v1 * 2 ^ 12 + v2 * 2 ^ 6
                 in Some [of_nat (val div 2 ^ 16), of_nat (val div 2 ^ 8 mod 256)])
            | _ \<Rightarrow> None))
      else
        (case (decodeChar c0, decodeChar c1, decodeChar c2, decodeChar c3) of
           (Some v0, Some v1, Some v2, Some v3) \<Rightarrow>
             (let val = v0 * 2 ^ 18 + v1 * 2 ^ 12 + v2 * 2 ^ 6 + v3
              in map_option
                   (\<lambda>rest. of_nat (val div 2 ^ 16) # of_nat (val div 2 ^ 8 mod 256)
                              # of_nat (val mod 256) # rest)
                   (DecodeString s))
         | _ \<Rightarrow> None))"
| "DecodeString _ = None"

subsection \<open>image and github.com/disintegration/imaging\<close>

record Point =
  X :: int
  Y :: int

text \<open>
  \<open>image.Rectangle\<close> has the fields \<open>Min\<close> and \<open>Max\<close>; they are \<open>MinPt\<close> and \<open>MaxPt\<close>
  here, away from HOL's \<open>Min\<close> and \<open>Max\<close> of a set. \<open>Dx\<close> and \<open>Dy\<close> are the width and
  the height.
\<close>

record Rectangle =
  MinPt :: Point
  MaxPt :: Point

definition Dx :: "Rectangle \<Rightarrow> int" where
  "Dx r = X (MaxPt r) - X (MinPt r)"

definition Dy :: "Rectangle \<Rightarrow> int" where
  "Dy r = Y (MaxPt r) - Y (MinPt r)"

definition Rect :: "int \<Rightarrow> int \<Rightarrow> int \<Rightarrow> int \<Rightarrow> Rectangle" where
  "Rect x0 y0 x1 y1 =
     \<lparr>MinPt = \<lparr>X = min x0 x1, Y = min y0 y1\<rparr>, MaxPt = \<lparr>X = max x0 x1, Y = max y0 y1\<rparr>\<rparr>"

text \<open>An image is its bounds and its pixel data; the program reads only the bounds.\<close>

record Image =
  Bounds :: Rectangle
  Pix :: "byte list"

datatype Format = JPEG | PNG | GIF | TIFF | BMP

datatype ResampleFilter =
    NearestNeighbor | Box | Linear | Hermite | MitchellNetravali | CatmullRom | BSpline
  | Gaussian | Bartlett | Lanczos | Hann | Hamming | Blackman | Welch | Cosine

subsection \<open>The object store's answer\<close>

text \<open>
  The fields of \<open>s3.GetObjectOutput\<close> that the handler reads. \<open>CacheControl\<close>, \<open>ETag\<close> and
  \<open>LastModified\<close> are pointers in Go: \<open>None\<close> is nil. \<open>S3Body\<close> is the content of the
  stream \<open>Body\<close>.
\<close>

record GetObjectOutput =
  S3Body :: "byte list"
  CacheControl :: "string option"
  LastModified :: "Time option"
  ETag :: "string option"

definition ErrCodeNoSuchBucket :: string where "ErrCodeNoSuchBucket = ''NoSuchBucket''"
definition ErrCodeNoSuchKey :: string where "ErrCodeNoSuchKey = ''NoSuchKey''"

subsection \<open>What the program is given\<close>

text \<open>
  \<^item> \<open>GetObject bucket key\<close> is \<open>svc.GetObject\<close>: the object or an error.
  \<^item> \<open>Decode\<close> and \<open>Encode\<close> are \<open>imaging.Decode\<close> and \<open>imaging.Encode\<close>.
  \<^item> \<open>allocates img w h\<close> says whether the images \<open>imaging.Resize\<close> makes on the way
    from \<open>img\<close> to a target of \<open>w\<close> by \<open>h\<close> pixels can be allocated
    (\<open>image.NewNRGBA\<close>); it depends on the memory of the machine.
  \<^item> \<open>resample img w h fltr\<close> is the pixel data \<open>imaging.Resize\<close> computes for a
    target of \<open>w\<close> by \<open>h\<close> pixels.
  \<^item> \<open>floatRound a b c\<close> is \<open>math.Floor(float64(a)*float64(b)/float64(c) + 0.5)\<close> as an
    integer, for numbers so large that \<open>float64\<close> arithmetic is not exact.
  \<^item> \<open>FormatTime t layout\<close> is \<open>t.Format(layout)\<close>.
\<close>

record Env =
  GetObject :: "string \<Rightarrow> string \<Rightarrow> error + GetObjectOutput"
  Decode :: "byte list \<Rightarrow> error + Image"
  Encode :: "Image \<Rightarrow> Format \<Rightarrow> error + byte list"
  allocates :: "Image \<Rightarrow> int \<Rightarrow> int \<Rightarrow> bool"
  resample :: "Image \<Rightarrow> int \<Rightarrow> int \<Rightarrow> ResampleFilter \<Rightarrow> byte list"
  floatRound :: "int \<Rightarrow> int \<Rightarrow> int \<Rightarrow> int"
  FormatTime :: "Time \<Rightarrow> string \<Rightarrow> string"

definition TimeFormat :: string where
  "TimeFormat = ''Mon, 02 Jan 2006 15:04:05 GMT''"

text \<open>
  A call of a Go function returns, or it panics. Dereferencing a nil pointer is a run-time
  panic, and so is making an image that cannot be allocated.
\<close>

datatype RuntimeError = NilPointerDereference | AllocationFailure

datatype 'a Call = Done 'a | Panic RuntimeError

text \<open>
  \<open>roundRatio a b c\<close> is \<open>math.Floor(float64(a)*float64(b)/float64(c) + 0.5)\<close> for
  positive \<open>a\<close>, \<open>b\<close>, \<open>c\<close>. While \<open>a * b + c\<close> stays below \<open>2^50\<close> the product is
  exact in \<open>float64\<close> and the rounding errors of the division and of the addition are too
  small to reach the next integer, so the result is the quotient rounded half up.
\<close>

definition roundRatio :: "Env \<Rightarrow> int \<Rightarrow> int \<Rightarrow> int \<Rightarrow> int" where
  "roundRatio env a b c =
     (if a * b + c < 2 ^ 50 then (2 * a * b + c) div (2 * c) else floatRound env a b c)"

text \<open>
  The size rules of \<open>imaging.Resize\<close>, as the library documents them: a negative target
  size, a target of 0 by 0 and an empty source give the empty image; a target width or
  height of 0 is replaced by the value that keeps the aspect ratio, at least 1 pixel; the
  result is a new image of the target size with its bounds at the origin, which has to be
  allocated.
\<close>

definition emptyNRGBA :: Image where
  "emptyNRGBA = \<lparr>Bounds = \<lparr>MinPt = \<lparr>X = 0, Y = 0\<rparr>, MaxPt = \<lparr>X = 0, Y = 0\<rparr>\<rparr>, Pix = []\<rparr>"

definition Resize :: "Env \<Rightarrow> Image \<Rightarrow> int \<Rightarrow> int \<Rightarrow> ResampleFilter \<Rightarrow> Image Call" where
  "Resize env img width height fltr =
     (if width < 0 \<or> height < 0 then Done emptyNRGBA
      else if width = 0 \<and> height = 0 then Done emptyNRGBA
      else
        (let srcW = Dx (Bounds img); srcH = Dy (Bounds img)
         in if srcW \<le> 0 \<or> srcH \<le> 0 then Done emptyNRGBA
            else
              (let dstW = (if width = 0 then max 1 (roundRatio env height srcW srcH)
                           else width);
                   dstH = (if height = 0 then max 1 (roundRatio env dstW srcH srcW)
                           else height)
               in if allocates env img dstW dstH then
                    Done \<lparr>Bounds = Rect 0 0 dstW dstH,
                          Pix = resample env img dstW dstH fltr\<rparr>
                  else Panic AllocationFailure)))"

section \<open>main.go\<close>

record RequestConfig =
  Bucket :: string
  ObjectKey :: string
  Width :: int
  Height :: int

definition bucketName :: string where
  "bucketName = ''s3.images.story.io''"

text \<open>
  The fields of \<open>events.APIGatewayProxyRequest\<close> that the handler reads, and
  \<open>events.APIGatewayProxyResponse\<close>. A Go map is a partial function; reading a missing
  key gives the zero value, here the empty string.
\<close>

record APIGatewayProxyRequest =
  Path :: string
  QueryStringParameters :: "string \<rightharpoonup> string"

record APIGatewayProxyResponse =
  StatusCode :: int
  Headers :: "string \<rightharpoonup> string"
  Body :: string
  IsBase64Encoded :: bool

definition mapIndex :: "(string \<rightharpoonup> string) \<Rightarrow> string \<Rightarrow> string" where
  "mapIndex m k = (case m k of None \<Rightarrow> [] | Some v \<Rightarrow> v)"

definition errResponse :: "int \<Rightarrow> APIGatewayProxyResponse" where
  "errResponse code =
     \<lparr>StatusCode = code,
      Headers = [''Content-Type'' \<mapsto> ''text/plain''],
      Body = StatusText code,
      IsBase64Encoded = False\<rparr>"

text \<open>
  \<open>resizer\<close> returns a string and an error, of which one is set: \<open>Inl\<close> is the error,
  \<open>Inr\<close> the string.
\<close>

definition resizer :: "Env \<Rightarrow> byte list \<Rightarrow> RequestConfig \<Rightarrow> (error + string) Call" where
  "resizer env req config =
     (case Decode env req of
        Inl err \<Rightarrow> Done (Inl err)
      | Inr srcImg \<Rightarrow>
          (let b = Bounds srcImg
           in if X (MaxPt b) \<le> Width config then
                (case Encode env srcImg JPEG of
                   Inl err \<Rightarrow> Done (Inl err)
                 | Inr buf \<Rightarrow> Done (Inr (EncodeToString buf)))
              else
                (case Resize env srcImg (Width config) (Height config) Lanczos of
                   Panic p \<Rightarrow> Panic p
                 | Done dstImg \<Rightarrow>
                     (case Encode env dstImg JPEG of
                        Inl err \<Rightarrow> Done (Inl err)
                      | Inr buf \<Rightarrow> Done (Inr (EncodeToString buf))))))"

text \<open>
  What a call of the handler does to the outside: it asks the object store for an object,
  and it closes the body of the answer (the deferred \<open>resp.Body.Close()\<close>).
\<close>

datatype Event = S3GetObject string string | BodyClose

text \<open>
  A call of the handler returns a response and an error (nil is \<open>None\<close>), or panics. The
  deferred \<open>Close\<close> of line 126 runs in both cases.
\<close>

datatype Outcome = Returns APIGatewayProxyResponse "error option" | Panics RuntimeError

text \<open>\<open>err.(awserr.Error)\<close> and the switch on its code, lines 114 to 121.\<close>

fun noSuchBucketOrKey :: "error \<Rightarrow> bool" where
  "noSuchBucketOrKey (AwsError code message) =
     (code = ErrCodeNoSuchBucket \<or> code = ErrCodeNoSuchKey)"
| "noSuchBucketOrKey err = False"

definition handler :: "Env \<Rightarrow> APIGatewayProxyRequest \<Rightarrow> Outcome \<times> Event list" where
  "handler env req =
     (let width = fst (Atoi (mapIndex (QueryStringParameters req) ''width''));
          height = fst (Atoi (mapIndex (QueryStringParameters req) ''height''));
          objectKey = Path req;
          allowedHosts = [''images.story.io'']
      in if \<not> Contains (Join allowedHosts '','') objectKey then
           (Returns (errResponse StatusBadRequest) (WithMessage None ''NOT_ALLOWED_HOST''), [])
         else if width \<le> 0 \<and> height \<le> 0 then
           (Returns (errResponse StatusBadRequest)
              (WithMessage None ''WIDTH AND HEIGHT INVALID DATA''), [])
         else
           (let config = \<lparr>Bucket = bucketName, ObjectKey = objectKey,
                          Width = width, Height = height\<rparr>
            in case GetObject env (Bucket config) (ObjectKey config) of
                 Inl err \<Rightarrow>
                   (if noSuchBucketOrKey err then
                      (Returns (errResponse StatusNotFound) None,
                       [S3GetObject (Bucket config) (ObjectKey config)])
                    else
                      (Returns (errResponse StatusInternalServerError)
                         (WithMessage (Some err) ''WIDTH AND HEIGHT INVALID DATA''),
                       [S3GetObject (Bucket config) (ObjectKey config)]))
               | Inr resp \<Rightarrow>
                   (case resizer env (S3Body resp) config of
                      Panic p \<Rightarrow>
                        (Panics p, [S3GetObject (Bucket config) (ObjectKey config), BodyClose])
                    | Done (Inl err) \<Rightarrow>
                        (Returns (errResponse StatusInternalServerError)
                           (WithMessage (Some err) ''RESIZE PARSING ERROR''),
                         [S3GetObject (Bucket config) (ObjectKey config), BodyClose])
                    | Done (Inr resize) \<Rightarrow>
                        (case (CacheControl resp, LastModified resp, ETag resp) of
                           (Some cacheControl, Some lastModified, Some etag) \<Rightarrow>
                             (Returns
                                \<lparr>StatusCode = 200,
                                 Headers = [''Content-Type'' \<mapsto> ''image/jpeg'',
                                            ''Cache-Control'' \<mapsto> cacheControl,
                                            ''Last-Modified'' \<mapsto>
                                              FormatTime env lastModified TimeFormat,
                                            ''ETag'' \<mapsto> etag],
                                 Body = resize,
                                 IsBase64Encoded = True\<rparr>
                                None,
                              [S3GetObject (Bucket config) (ObjectKey config), BodyClose])
                         | _ \<Rightarrow>
                             (Panics NilPointerDereference,
                              [S3GetObject (Bucket config) (ObjectKey config), BodyClose])))))"

section \<open>Notions used to state the properties\<close>

text \<open>The width and the height the handler works with: lines 86 and 87.\<close>

definition requestWidth :: "APIGatewayProxyRequest \<Rightarrow> int" where
  "requestWidth req = fst (Atoi (mapIndex (QueryStringParameters req) ''width''))"

definition requestHeight :: "APIGatewayProxyRequest \<Rightarrow> int" where
  "requestHeight req = fst (Atoi (mapIndex (QueryStringParameters req) ''height''))"

text \<open>The configuration the handler builds for a request: lines 100 to 105.\<close>

definition requestConfig :: "APIGatewayProxyRequest \<Rightarrow> RequestConfig" where
  "requestConfig req =
     \<lparr>Bucket = bucketName, ObjectKey = Path req,
      Width = requestWidth req, Height = requestHeight req\<rparr>"

text \<open>A request is validated when it passes both checks of the handler: lines 91 and 96.\<close>

definition validated :: "APIGatewayProxyRequest \<Rightarrow> bool" where
  "validated req =
     (Contains (Join [''images.story.io''] '','') (Path req)
      \<and> (0 < requestWidth req \<or> 0 < requestHeight req))"

text \<open>
  A numeric parameter value: an optional sign and one or more decimal digits. Every other
  string, the empty one included, is non-numeric.
\<close>

definition isDigit :: "char \<Rightarrow> bool" where
  "isDigit ch = (of_char (CHR ''0'') \<le> (of_char ch :: nat) \<and> (of_char ch :: nat) \<le> of_char (CHR ''9''))"

definition isDecimal :: "string \<Rightarrow> bool" where
  "isDecimal s =
     (case s of
        [] \<Rightarrow> False
      | c # cs \<Rightarrow>
          (if c = CHR ''+'' \<or> c = CHR ''-'' then cs \<noteq> [] \<and> list_all isDigit cs
           else list_all isDigit s))"

text \<open>
  The digits in front of the first byte that is not a digit, after an optional sign, and
  the number they write.
\<close>

definition digitRun :: "string \<Rightarrow> string" where
  "digitRun s =
     (case s of
        [] \<Rightarrow> []
      | c # cs \<Rightarrow> takeWhile isDigit (if c = CHR ''+'' \<or> c = CHR ''-'' then cs else s))"

definition decimalValue :: "string \<Rightarrow> nat" where
  "decimalValue ds = foldl (\<lambda>n ch. n * 10 + (of_char ch - 48)) 0 ds"

text \<open>
  \<open>halfUp a b c\<close> is \<open>a * b / c\<close> rounded to the nearest integer, a half rounded up. The
  target size of a resize: a requested width or height of 0 is replaced by the other one
  scaled with the aspect ratio of the source, at least 1. \<open>floatExact\<close> says that the
  numbers of that computation are in the range where \<open>float64\<close> arithmetic is exact.
\<close>

definition halfUp :: "int \<Rightarrow> int \<Rightarrow> int \<Rightarrow> int" where
  "halfUp a b c = (2 * a * b + c) div (2 * c)"

definition targetWidth :: "Image \<Rightarrow> RequestConfig \<Rightarrow> int" where
  "targetWidth srcImg config =
     (if Width config = 0
      then max 1 (halfUp (Height config) (Dx (Bounds srcImg)) (Dy (Bounds srcImg)))
      else Width config)"

definition targetHeight :: "Image \<Rightarrow> RequestConfig \<Rightarrow> int" where
  "targetHeight srcImg config =
     (if Height config = 0
      then max 1 (halfUp (Width config) (Dy (Bounds srcImg)) (Dx (Bounds srcImg)))
      else Height config)"

definition floatExact :: "Image \<Rightarrow> RequestConfig \<Rightarrow> bool" where
  "floatExact srcImg config =
     ((Width config = 0 \<longrightarrow>
         Height config * Dx (Bounds srcImg) + Dy (Bounds srcImg) < 2 ^ 50)
      \<and> (Height config = 0 \<longrightarrow>
         Width config * Dy (Bounds srcImg) + Dx (Bounds srcImg) < 2 ^ 50))"

text \<open>The image that \<open>resizer\<close> hands to the encoder: lines 63 to 74.\<close>

definition encodedImage :: "Env \<Rightarrow> Image \<Rightarrow> RequestConfig \<Rightarrow> Image Call" where
  "encodedImage env srcImg config =
     (if X (MaxPt (Bounds srcImg)) \<le> Width config then Done srcImg
      else Resize env srcImg (Width config) (Height config) Lanczos)"

section \<open>Concrete surroundings for examples\<close>

text \<open>
  An image with given bounds, a store with a few objects, and a codec that knows three
  byte strings: a 500 by 400 picture, a 50 by 40 picture, and a 50 by 40 picture whose
  bounds start at x = 10, as the first frame of a GIF with a left offset has them. The
  example encoder writes the width and the height of the image as two bytes, so that the
  size of what was encoded can be read off the output. The example machine can hold an
  image of up to \<open>2^24\<close> pixels.
\<close>

definition imageAt :: "int \<Rightarrow> int \<Rightarrow> int \<Rightarrow> int \<Rightarrow> Image" where
  "imageAt x0 y0 x1 y1 =
     \<lparr>Bounds = \<lparr>MinPt = \<lparr>X = x0, Y = y0\<rparr>, MaxPt = \<lparr>X = x1, Y = y1\<rparr>\<rparr>, Pix = []\<rparr>"

definition png500x400 :: "byte list" where "png500x400 = [1]"
definition png50x40 :: "byte list" where "png50x40 = [2]"
definition gifOffset50x40 :: "byte list" where "gifOffset50x40 = [3]"
definition corruptBytes :: "byte list" where "corruptBytes = [4]"

definition exampleDecode :: "byte list \<Rightarrow> error + Image" where
  "exampleDecode req =
     (if req = png500x400 then Inr (imageAt 0 0 500 400)
      else if req = png50x40 then Inr (imageAt 0 0 50 40)
      else if req = gifOffset50x40 then Inr (imageAt 10 0 60 40)
      else Inl (OtherError ''image: unknown format''))"

definition exampleEncode :: "Image \<Rightarrow> Format \<Rightarrow> error + byte list" where
  "exampleEncode img fmt = Inr [of_int (Dx (Bounds img)), of_int (Dy (Bounds img))]"

definition storedObject :: "byte list \<Rightarrow> GetObjectOutput" where
  "storedObject body =
     \<lparr>S3Body = body, CacheControl = Some ''max-age=3600'', LastModified = Some 0,
      ETag = Some ''abc''\<rparr>"

definition exampleStore :: "string \<Rightarrow> string \<Rightarrow> error + GetObjectOutput" where
  "exampleStore bucket key =
     (if bucket \<noteq> bucketName then Inl (AwsError ''NoSuchBucket'' ''no such bucket'')
      else if key = ''images.story.io'' then Inr (storedObject png500x400)
      else if key = ''images'' then Inr (storedObject png50x40)
      else if key = ''story'' then Inr (storedObject corruptBytes)
      else if key = ''io'' then Inr ((storedObject png500x400)\<lparr>CacheControl := None\<rparr>)
      else if key = ''.'' then Inl (OtherError ''connection reset'')
      else Inl (AwsError ''NoSuchKey'' ''no such key''))"

definition exampleEnv :: Env where
  "exampleEnv =
     \<lparr>GetObject = exampleStore, Decode = exampleDecode, Encode = exampleEncode,
      allocates = (\<lambda>img w h. w * h \<le> 2 ^ 24),
      resample = (\<lambda>img w h fltr. []), floatRound = (\<lambda>a b c. 1),
      FormatTime = (\<lambda>t layout. layout)\<rparr>"

text \<open>The same surroundings with an encoder that fails.\<close>

definition failingEncodeEnv :: Env where
  "failingEncodeEnv =
     exampleEnv\<lparr>Encode := (\<lambda>img fmt. Inl (OtherError ''jpeg: image is too large to encode''))\<rparr>"

text \<open>The 200 response the example store's metadata gives, with a given body.\<close>

definition exampleResponse :: "string \<Rightarrow> APIGatewayProxyResponse" where
  "exampleResponse body =
     \<lparr>StatusCode = 200,
      Headers = [''Content-Type'' \<mapsto> ''image/jpeg'', ''Cache-Control'' \<mapsto> ''max-age=3600'',
                 ''Last-Modified'' \<mapsto> TimeFormat, ''ETag'' \<mapsto> ''abc''],
      Body = body, IsBase64Encoded = True\<rparr>"

definition exampleRequest :: "string \<Rightarrow> (string \<rightharpoonup> string) \<Rightarrow> APIGatewayProxyRequest" where
  "exampleRequest path params = \<lparr>Path = path, QueryStringParameters = params\<rparr>"

section \<open>The base64 round trip\<close>

text \<open>
  Decoding what \<open>EncodeToString\<close> produced gives the bytes back. The alphabet has 64
  distinct characters without \<open>=\<close>, so each character decodes to its index; the four
  6-bit fields of a 24-bit value put together give the value again.
\<close>

lemma indexOf_nth: "distinct xs \<Longrightarrow> i < length xs \<Longrightarrow> indexOf (xs ! i) xs = Some i"
proof (induction xs arbitrary: i)
  case Nil
  then show ?case by simp
next
  case (Cons y ys)
  show ?case
  proof (cases i)
    case 0
    then show ?thesis by simp
  next
    case (Suc j)
    with Cons.prems have "j < length ys" and "ys ! j \<in> set ys" and "y \<notin> set ys" and "distinct ys"
      by auto
    then have "ys ! j \<noteq> y" and "indexOf (ys ! j) ys = Some j"
      using Cons.IH by auto
    with Suc show ?thesis by simp
  qed
qed

lemma distinct_encodeStd: "distinct encodeStd"
  by (simp add: encodeStd_def)

lemma length_encodeStd: "length encodeStd = 64"
  by (simp add: encodeStd_def)

lemma pad_not_in_encodeStd: "CHR ''='' \<notin> set encodeStd"
  by (simp add: encodeStd_def)

lemma decodeChar_sextet: "decodeChar (sextet val shift) = Some (val div 2 ^ shift mod 64)"
  unfolding decodeChar_def sextet_def
  by (rule indexOf_nth [OF distinct_encodeStd]) (simp add: length_encodeStd)

lemma sextet_not_pad: "sextet val shift \<noteq> CHR ''=''"
proof -
  have "sextet val shift \<in> set encodeStd"
    unfolding sextet_def by (rule nth_mem) (simp add: length_encodeStd)
  with pad_not_in_encodeStd show ?thesis by metis
qed

lemma unat_byte_lt: "unat (a::byte) < 256"
  using unsigned_less [of a, where 'a = nat] by simp

lemma split_256: "A * 65536 + B * 256 + C = (A * 256 + B) * 256 + (C::nat)"
  by simp

lemma div_256: "C < 256 \<Longrightarrow> (A * 65536 + B * 256 + C) div 256 = A * 256 + (B::nat)"
  unfolding split_256 by simp

lemma div_mod_256:
  "B < 256 \<Longrightarrow> C < 256 \<Longrightarrow> (A * 65536 + B * 256 + C) div 256 mod 256 = (B::nat)"
  by (simp add: div_256)

lemma div_65536:
  assumes "B < 256" and "C < 256"
  shows "(A * 65536 + B * 256 + C) div 65536 = (A::nat)"
proof -
  have "(A * 65536 + B * 256 + C) div 65536 = (A * 65536 + B * 256 + C) div 256 div 256"
    by (simp add: div_mult2_eq [symmetric])
  also have "\<dots> = (A * 256 + B) div 256" using assms by (simp add: div_256)
  also have "\<dots> = A" using assms by simp
  finally show ?thesis .
qed

lemma mod_256:
  assumes "C < 256"
  shows "(A * 65536 + B * 256 + C) mod 256 = (C::nat)"
proof -
  have "(A * 65536 + B * 256 + C) mod 256 = ((A * 256 + B) * 256 + C) mod 256"
    by (simp only: split_256)
  also have "\<dots> = C mod 256" by (simp only: mod_mult_self3)
  finally show ?thesis using assms by simp
qed

lemma fields24:
  assumes "n < 16777216"
  shows "(n div 262144 mod 64) * 262144 + (n div 4096 mod 64) * 4096
       + (n div 64 mod 64) * 64 + n mod 64 = (n::nat)"
proof -
  define m1 where "m1 = n div 64"
  define m2 where "m2 = m1 div 64"
  define m3 where "m3 = m2 div 64"
  have d2: "n div 4096 = m2" by (simp add: m1_def m2_def div_mult2_eq [symmetric])
  have d3: "n div 262144 = m3" by (simp add: m1_def m2_def m3_def div_mult2_eq [symmetric])
  have "m3 < 64" using assms unfolding d3 [symmetric] by simp
  then have m3: "m3 mod 64 = m3" by simp
  have e1: "n = m1 * 64 + n mod 64" by (simp add: m1_def)
  have e2: "m1 = m2 * 64 + m1 mod 64" by (simp add: m2_def)
  have e3: "m2 = m3 * 64 + m2 mod 64" by (simp add: m3_def)
  have "m3 * 262144 + (m2 mod 64) * 4096 + (m1 mod 64) * 64 + n mod 64
        = ((m3 * 64 + m2 mod 64) * 64 + m1 mod 64) * 64 + n mod 64"
    by (simp add: algebra_simps)
  also have "\<dots> = n" using e1 e2 e3 by simp
  finally show ?thesis by (simp add: d2 d3 m3 m1_def)
qed

lemma block3:
  fixes a b c :: byte
  shows "of_nat ((unat a * 65536 + unat b * 256 + unat c) div 65536) = a"
    and "of_nat ((unat a * 65536 + unat b * 256 + unat c) div 256 mod 256) = b"
    and "of_nat ((unat a * 65536 + unat b * 256 + unat c) mod 256) = c"
    and "unat a * 65536 + unat b * 256 + unat c < 16777216"
  using unat_byte_lt [of a] unat_byte_lt [of b] unat_byte_lt [of c]
  by (simp_all add: div_65536 div_mod_256 mod_256)

lemma decode_quad:
  assumes "(n div 262144 mod 64) * 262144 + (n div 4096 mod 64) * 4096
             + (n div 64 mod 64) * 64 + n mod 64 = (n::nat)"
  shows "DecodeString (sextet n 18 # sextet n 12 # sextet n 6 # sextet n 0 # s)
     = map_option
         (\<lambda>rest. of_nat (n div 65536) # of_nat (n div 256 mod 256) # of_nat (n mod 256) # rest)
         (DecodeString s)"
  by (simp add: Let_def decodeChar_sextet sextet_not_pad assms)

lemma decode_block3:
  "DecodeString (EncodeToString (a # b # c # src))
     = map_option (\<lambda>rest. a # b # c # rest) (DecodeString (EncodeToString src))"
proof -
  define n where "n = unat a * 65536 + unat b * 256 + unat c"
  have enc: "EncodeToString (a # b # c # src)
      = sextet n 18 # sextet n 12 # sextet n 6 # sextet n 0 # EncodeToString src"
    by (simp add: Let_def n_def)
  have "n < 16777216" unfolding n_def by (rule block3(4))
  note decode_quad [OF fields24 [OF this]]
  then show ?thesis
    unfolding enc by (simp add: n_def block3)
qed

lemma fields24_2:
  assumes "n < 16777216" and "n = 64 * k"
  shows "(n div 262144 mod 64) * 262144 + (n div 4096 mod 64) * 4096
       + (n div 64 mod 64) * 64 = (n::nat)"
proof -
  have "n mod 64 = 0" unfolding assms(2) by simp
  with fields24 [OF assms(1)] show ?thesis by linarith
qed

lemma fields24_1:
  assumes "n < 16777216" and "n = 4096 * k"
  shows "(n div 262144 mod 64) * 262144 + (n div 4096 mod 64) * 4096 = (n::nat)"
proof -
  have n64: "n = 64 * (64 * k)" unfolding assms(2) by simp
  have "n div 64 = 64 * k" unfolding n64 by simp
  then have "n div 64 mod 64 = 0" by simp
  with fields24_2 [OF assms(1) n64] show ?thesis by linarith
qed

lemma decode_pad2:
  assumes "(n div 262144 mod 64) * 262144 + (n div 4096 mod 64) * 4096 = (n::nat)"
  shows "DecodeString [sextet n 18, sextet n 12, CHR ''='', CHR ''='']
           = Some [of_nat (n div 65536)]"
  by (simp add: Let_def decodeChar_sextet sextet_not_pad assms)

lemma decode_pad1:
  assumes "(n div 262144 mod 64) * 262144 + (n div 4096 mod 64) * 4096
             + (n div 64 mod 64) * 64 = (n::nat)"
  shows "DecodeString [sextet n 18, sextet n 12, sextet n 6, CHR ''='']
           = Some [of_nat (n div 65536), of_nat (n div 256 mod 256)]"
  by (simp add: Let_def decodeChar_sextet sextet_not_pad assms)

lemma decode_block1: "DecodeString (EncodeToString [a]) = Some [a]"
proof -
  define n where "n = unat a * 65536 + unat (0::byte) * 256 + unat (0::byte)"
  have n: "n = unat a * 65536" by (simp add: n_def)
  have lt: "n < 16777216" unfolding n_def by (rule block3(4))
  have k: "n = 4096 * (16 * unat a)" by (simp add: n)
  have enc: "EncodeToString [a] = [sextet n 18, sextet n 12, CHR ''='', CHR ''='']"
    by (simp add: Let_def n)
  have "of_nat (n div 65536) = a" unfolding n_def by (rule block3(1))
  then show ?thesis
    unfolding enc decode_pad2 [OF fields24_1 [OF lt k]] by simp
qed

lemma decode_block2: "DecodeString (EncodeToString [a, b]) = Some [a, b]"
proof -
  define n where "n = unat a * 65536 + unat b * 256 + unat (0::byte)"
  have n: "n = unat a * 65536 + unat b * 256" by (simp add: n_def)
  have lt: "n < 16777216" unfolding n_def by (rule block3(4))
  have k: "n = 64 * (1024 * unat a + 4 * unat b)" by (simp add: n)
  have enc: "EncodeToString [a, b] = [sextet n 18, sextet n 12, sextet n 6, CHR ''='']"
    by (simp add: Let_def n)
  have "of_nat (n div 65536) = a" "of_nat (n div 256 mod 256) = b"
    unfolding n_def by (rule block3)+
  then show ?thesis
    unfolding enc decode_pad1 [OF fields24_2 [OF lt k]] by simp
qed

lemma DecodeString_EncodeToString: "DecodeString (EncodeToString src) = Some src"
proof (induction src rule: EncodeToString.induct)
  case 1
  show ?case by simp
next
  case (2 a)
  show ?case by (rule decode_block1)
next
  case (3 a b)
  show ?case by (rule decode_block2)
next
  case (4 a b c src)
  then show ?case by (simp only: decode_block3 option.map)
qed

section \<open>Facts about the parameter parser\<close>

text \<open>
  \<open>strconv.Atoi\<close> on a string that is not an optionally signed run of digits: the
  result is 0 with a syntax error unless the digits in front of the first bad character
  already exceed the largest unsigned 64-bit number; then \<open>ParseUint\<close> stops at the
  overflowing digit, and the result is the largest or smallest \<open>int\<close> with a range
  error.
\<close>

lemma of_char_lt_256: "(of_char ch :: nat) < 256"
proof -
  have "(of_char ch :: nat) = of_char ch mod 256" by (simp only: of_char_mod_256)
  also have "\<dots> < 256" by simp
  finally show ?thesis .
qed

lemma byte_minus_48:
  fixes x :: nat
  assumes "x < 256"
  shows "(if 9 < (x + 256 - 48) mod 256 then None else Some ((x + 256 - 48) mod 256))
         = (if 48 \<le> x \<and> x \<le> 57 then Some (x - 48) else None)"
proof (cases "48 \<le> x")
  case True
  then have "x + 256 - 48 = (x - 48) + 256" by simp
  then have "(x + 256 - 48) mod 256 = (x - 48) mod 256" by (simp only: mod_add_self2)
  also have "\<dots> = x - 48" using assms by simp
  finally show ?thesis using True by auto
next
  case False
  then have "(x + 256 - 48) mod 256 = x + 208" by simp
  then show ?thesis using False by simp
qed

lemma digitVal_eq:
  "digitVal ch = (if isDigit ch then Some (of_char ch - 48) else None)"
  unfolding digitVal_def isDigit_def Let_def
  using byte_minus_48 [OF of_char_lt_256, of ch] by simp

lemma digitVal_None_iff: "digitVal ch = None \<longleftrightarrow> \<not> isDigit ch"
  by (simp add: digitVal_eq)

lemma digit_le_9: "isDigit ch \<Longrightarrow> (of_char ch :: nat) - 48 \<le> 9"
  by (auto simp: isDigit_def)

lemma atoiLoop_None_iff: "atoiLoop s n = None \<longleftrightarrow> \<not> list_all isDigit s"
  by (induction s arbitrary: n) (simp_all add: digitVal_eq)

lemma foldl_digits_mono:
  "n \<le> foldl (\<lambda>n ch. n * 10 + (of_char ch - 48)) (n::nat) ds"
proof (induction ds arbitrary: n)
  case Nil
  show ?case by simp
next
  case (Cons c cs)
  have "n \<le> n * 10 + (of_char c - 48)" by simp
  also have "\<dots> \<le> foldl (\<lambda>n ch. n * 10 + (of_char ch - 48)) (n * 10 + (of_char c - 48)) cs"
    by (rule Cons.IH)
  finally show ?case by simp
qed

lemma foldl_digits_bound:
  "list_all isDigit ds \<Longrightarrow>
   foldl (\<lambda>n ch. n * 10 + (of_char ch - 48)) (n::nat) ds < (n + 1) * 10 ^ length ds"
proof (induction ds arbitrary: n)
  case Nil
  show ?case by simp
next
  case (Cons c cs)
  then have d: "(of_char c :: nat) - 48 \<le> 9" and rest: "list_all isDigit cs"
    by (simp_all add: digit_le_9)
  have "foldl (\<lambda>n ch. n * 10 + (of_char ch - 48)) (n * 10 + (of_char c - 48)) cs
        < (n * 10 + (of_char c - 48) + 1) * 10 ^ length cs"
    by (rule Cons.IH [OF rest])
  also have "\<dots> \<le> ((n + 1) * 10) * 10 ^ length cs"
    using d by (intro mult_le_mono1) simp
  finally show ?case by (simp add: algebra_simps)
qed

lemma parseUintLoop_syntax:
  "\<not> list_all isDigit cs \<Longrightarrow>
   foldl (\<lambda>n ch. n * 10 + (of_char ch - 48)) n (takeWhile isDigit cs) \<le> maxUint64 \<Longrightarrow>
   parseUintLoop s0 cs n = (0, Some (ErrSyntax s0))"
proof (induction cs arbitrary: n)
  case Nil
  then show ?case by simp
next
  case (Cons c cs)
  show ?case
  proof (cases "isDigit c")
    case False
    then show ?thesis by (simp add: digitVal_eq)
  next
    case True
    let ?n1 = "n * 10 + (of_char c - 48)"
    from Cons.prems True have nd: "\<not> list_all isDigit cs"
      and le: "foldl (\<lambda>n ch. n * 10 + (of_char ch - 48)) ?n1 (takeWhile isDigit cs) \<le> maxUint64"
      by simp_all
    have "?n1 \<le> maxUint64" using foldl_digits_mono [of ?n1] le by (rule order_trans)
    then have a: "\<not> ?n1 > maxUint64" and b: "\<not> n \<ge> cutoff"
      by (simp_all add: cutoff_def maxUint64_def)
    show ?thesis
      using True a b Cons.IH [OF nd le] by (simp add: digitVal_eq Let_def)
  qed
qed

lemma parseUintLoop_range:
  "maxUint64 < foldl (\<lambda>n ch. n * 10 + (of_char ch - 48)) n (takeWhile isDigit cs) \<Longrightarrow>
   n \<le> maxUint64 \<Longrightarrow>
   parseUintLoop s0 cs n = (maxUint64, Some (ErrRange s0))"
proof (induction cs arbitrary: n)
  case Nil
  then show ?case by simp
next
  case (Cons c cs)
  show ?case
  proof (cases "isDigit c")
    case False
    with Cons.prems show ?thesis by simp
  next
    case True
    let ?n1 = "n * 10 + (of_char c - 48)"
    from Cons.prems True
    have gt: "maxUint64 < foldl (\<lambda>n ch. n * 10 + (of_char ch - 48)) ?n1 (takeWhile isDigit cs)"
      by simp
    show ?thesis
    proof (cases "n \<ge> cutoff \<or> ?n1 > maxUint64")
      case True
      then show ?thesis using \<open>isDigit c\<close> by (auto simp: digitVal_eq Let_def)
    next
      case False
      then have "?n1 \<le> maxUint64" by simp
      from Cons.IH [OF gt this] False \<open>isDigit c\<close> show ?thesis
        by (simp add: digitVal_eq Let_def)
    qed
  qed
qed

lemma not_decimal_digits:
  assumes "\<not> isDecimal (c # cs)"
  defines "digits \<equiv> (if c = CHR ''+'' \<or> c = CHR ''-'' then cs else c # cs)"
  shows "digits = [] \<or> \<not> list_all isDigit digits"
  using assms by (auto simp: isDecimal_def split: if_splits)

lemma digitRun_Cons:
  "digitRun (c # cs) = takeWhile isDigit (if c = CHR ''+'' \<or> c = CHR ''-'' then cs else c # cs)"
  by (simp add: digitRun_def)

lemma ParseInt_syntax:
  assumes "\<not> isDecimal s" and "decimalValue (digitRun s) \<le> maxUint64"
  shows "ParseInt s = (0, Some (ErrSyntax s))"
proof (cases s)
  case Nil
  then show ?thesis by (simp add: ParseInt_def)
next
  case (Cons c cs)
  define digits where "digits = (if c = CHR ''+'' \<or> c = CHR ''-'' then cs else c # cs)"
  have nd: "digits = [] \<or> \<not> list_all isDigit digits"
    using assms(1) unfolding Cons digits_def by (rule not_decimal_digits)
  have "ParseUint digits = (0, Some (ErrSyntax digits))"
  proof (cases "digits = []")
    case True
    then show ?thesis by (simp add: ParseUint_def)
  next
    case False
    with nd have "\<not> list_all isDigit digits" by simp
    moreover have "foldl (\<lambda>n ch. n * 10 + (of_char ch - 48)) 0 (takeWhile isDigit digits)
        \<le> maxUint64"
      using assms(2) unfolding Cons digitRun_Cons decimalValue_def digits_def .
    ultimately have "parseUintLoop digits digits 0 = (0, Some (ErrSyntax digits))"
      by (rule parseUintLoop_syntax)
    with False show ?thesis by (simp add: ParseUint_def)
  qed
  then show ?thesis
    unfolding Cons ParseInt_def Let_def digits_def by simp
qed

lemma Atoi_syntax:
  assumes "\<not> isDecimal s" and "decimalValue (digitRun s) \<le> maxUint64"
  shows "Atoi s = (0, Some (ErrSyntax s))"
proof (cases s)
  case Nil
  with ParseInt_syntax [OF assms] show ?thesis by (simp add: Atoi_def)
next
  case (Cons c cs)
  show ?thesis
  proof (cases "length s < 19")
    case False
    with ParseInt_syntax [OF assms] Cons show ?thesis by (simp add: Atoi_def)
  next
    case True
    define digits where "digits = (if c = CHR ''+'' \<or> c = CHR ''-'' then cs else c # cs)"
    have nd: "digits = [] \<or> \<not> list_all isDigit digits"
      using assms(1) unfolding Cons digits_def by (rule not_decimal_digits)
    then have "digits = [] \<or> atoiLoop digits 0 = None"
      by (simp add: atoiLoop_None_iff)
    moreover have "(if c = CHR ''-'' \<or> c = CHR ''+'' then cs else c # cs) = digits"
      by (auto simp: digits_def)
    ultimately show ?thesis
      using True unfolding Cons Atoi_def Let_def by auto
  qed
qed

lemma ParseInt_range:
  assumes "maxUint64 < decimalValue (digitRun (c # cs))"
  shows "ParseInt (c # cs)
           = (if c = CHR ''-'' then - (2 ^ 63) else 2 ^ 63 - 1, Some (ErrRange (c # cs)))"
proof -
  define digits where "digits = (if c = CHR ''+'' \<or> c = CHR ''-'' then cs else c # cs)"
  have gt: "maxUint64 < foldl (\<lambda>n ch. n * 10 + (of_char ch - 48)) 0 (takeWhile isDigit digits)"
    using assms unfolding digitRun_Cons decimalValue_def digits_def .
  then have ne: "digits \<noteq> []" by auto
  have "parseUintLoop digits digits 0 = (maxUint64, Some (ErrRange digits))"
    using gt by (rule parseUintLoop_range) simp
  with ne have "ParseUint digits = (maxUint64, Some (ErrRange digits))"
    by (simp add: ParseUint_def)
  then show ?thesis
    unfolding ParseInt_def Let_def digits_def by (simp add: maxUint64_def)
qed

lemma long_digitRun:
  assumes "maxUint64 < decimalValue (digitRun s)"
  shows "19 < length s"
proof (rule ccontr)
  assume "\<not> 19 < length s"
  then have len: "length s \<le> 19" by simp
  have "length (digitRun s) \<le> length s"
    by (cases s) (auto simp: digitRun_def intro: order_trans [OF length_takeWhile_le])
  with len have l: "length (digitRun s) \<le> 19" by simp
  have "list_all isDigit (digitRun s)"
    by (cases s) (auto simp: digitRun_def list_all_iff dest: set_takeWhileD)
  from foldl_digits_bound [OF this, of 0]
  have "decimalValue (digitRun s) < 10 ^ length (digitRun s)"
    by (simp add: decimalValue_def)
  also have "\<dots> \<le> (10::nat) ^ 19" using l by (intro power_increasing) simp_all
  also have "\<dots> \<le> maxUint64" by (simp add: maxUint64_def)
  finally show False using assms by simp
qed

lemma Atoi_range:
  assumes "maxUint64 < decimalValue (digitRun s)"
  shows "Atoi s = (if hd s = CHR ''-'' then - (2 ^ 63) else 2 ^ 63 - 1, Some (ErrRange s))"
proof (cases s)
  case Nil
  with assms show ?thesis by (simp add: digitRun_def decimalValue_def)
next
  case (Cons c cs)
  have "\<not> length s < 19" using long_digitRun [OF assms] by simp
  then have "Atoi s = ParseInt s" unfolding Cons by (simp add: Atoi_def)
  with ParseInt_range [of c cs] assms Cons show ?thesis by simp
qed

lemma not_decimal_parameter:
  assumes "m k = None \<or> (\<exists>s. m k = Some s \<and> \<not> isDecimal s)"
  shows "\<not> isDecimal (mapIndex m k)"
proof (cases "m k")
  case None
  then show ?thesis by (simp add: mapIndex_def isDecimal_def)
next
  case (Some s)
  with assms have "\<not> isDecimal s" by simp
  with Some show ?thesis by (simp add: mapIndex_def)
qed

section \<open>Facts about the handler\<close>

lemma handler_cong:
  "Path req = Path req' \<Longrightarrow> requestWidth req = requestWidth req' \<Longrightarrow>
   requestHeight req = requestHeight req' \<Longrightarrow> handler env req = handler env req'"
  by (simp add: handler_def requestWidth_def requestHeight_def)

lemma handler_rejects_host:
  "\<not> Contains (Join [''images.story.io''] '','') (Path req) \<Longrightarrow>
   handler env req = (Returns (errResponse StatusBadRequest) None, [])"
  by (simp add: handler_def)

lemma handler_rejects_dimensions:
  "requestWidth req \<le> 0 \<Longrightarrow> requestHeight req \<le> 0 \<Longrightarrow>
   handler env req = (Returns (errResponse StatusBadRequest) None, [])"
  by (simp add: handler_def requestWidth_def requestHeight_def Let_def)


lemma handler_validated:
  assumes "validated req"
  shows "handler env req =
     (case GetObject env bucketName (Path req) of
        Inl err \<Rightarrow>
          (if noSuchBucketOrKey err then
             (Returns (errResponse StatusNotFound) None, [S3GetObject bucketName (Path req)])
           else
             (Returns (errResponse StatusInternalServerError)
                (Some (withMessage err ''WIDTH AND HEIGHT INVALID DATA'')),
              [S3GetObject bucketName (Path req)]))
      | Inr resp \<Rightarrow>
          (case resizer env (S3Body resp) (requestConfig req) of
             Panic p \<Rightarrow> (Panics p, [S3GetObject bucketName (Path req), BodyClose])
           | Done (Inl err) \<Rightarrow>
               (Returns (errResponse StatusInternalServerError)
                  (Some (withMessage err ''RESIZE PARSING ERROR'')),
                [S3GetObject bucketName (Path req), BodyClose])
           | Done (Inr resize) \<Rightarrow>
               (case (CacheControl resp, LastModified resp, ETag resp) of
                  (Some cacheControl, Some lastModified, Some etag) \<Rightarrow>
                    (Returns
                       \<lparr>StatusCode = 200,
                        Headers = [''Content-Type'' \<mapsto> ''image/jpeg'',
                                   ''Cache-Control'' \<mapsto> cacheControl,
                                   ''Last-Modified'' \<mapsto> FormatTime env lastModified TimeFormat,
                                   ''ETag'' \<mapsto> etag],
                        Body = resize, IsBase64Encoded = True\<rparr>
                       None,
                     [S3GetObject bucketName (Path req), BodyClose])
                | _ \<Rightarrow>
                    (Panics NilPointerDereference,
                     [S3GetObject bucketName (Path req), BodyClose]))))"
proof -
  from assms have c: "Contains ''images.story.io'' (Path req)"
    by (simp add: validated_def)
  from assms have "0 < requestWidth req \<or> 0 < requestHeight req"
    by (simp add: validated_def)
  then have d: "(fst (Atoi (mapIndex (QueryStringParameters req) ''width'')) \<le> 0
             \<and> fst (Atoi (mapIndex (QueryStringParameters req) ''height'')) \<le> 0) = False"
    unfolding requestWidth_def requestHeight_def by arith
  show ?thesis
    unfolding handler_def Let_def requestConfig_def requestWidth_def requestHeight_def
    by (simp add: c d split: sum.splits option.splits Call.splits)
qed

lemma resizer_eq:
  "resizer env req config =
     (case Decode env req of
        Inl err \<Rightarrow> Done (Inl err)
      | Inr srcImg \<Rightarrow>
          (case encodedImage env srcImg config of
             Panic p \<Rightarrow> Panic p
           | Done img \<Rightarrow>
               (case Encode env img JPEG of
                  Inl err \<Rightarrow> Done (Inl err)
                | Inr buf \<Rightarrow> Done (Inr (EncodeToString buf)))))"
  by (simp add: resizer_def encodedImage_def Let_def split: sum.splits Call.splits)

section \<open>The size of a resized image\<close>

lemma Rect_origin: "0 \<le> w \<Longrightarrow> 0 \<le> h \<Longrightarrow>
  MinPt (Rect 0 0 w h) = \<lparr>X = 0, Y = 0\<rparr> \<and> Dx (Rect 0 0 w h) = w \<and> Dy (Rect 0 0 w h) = h"
  by (simp add: Rect_def Dx_def Dy_def)

lemma Resize_Done:
  assumes "0 < Dx (Bounds srcImg)" and "0 < Dy (Bounds srcImg)"
    and "0 \<le> width" and "0 \<le> height" and "0 < width \<or> 0 < height"
    and "dstW = (if width = 0
                 then max 1 (roundRatio env height (Dx (Bounds srcImg)) (Dy (Bounds srcImg)))
                 else width)"
    and "dstH = (if height = 0
                 then max 1 (roundRatio env width (Dy (Bounds srcImg)) (Dx (Bounds srcImg)))
                 else height)"
  shows "Resize env srcImg width height fltr
     = (if allocates env srcImg dstW dstH
        then Done \<lparr>Bounds = Rect 0 0 dstW dstH, Pix = resample env srcImg dstW dstH fltr\<rparr>
        else Panic AllocationFailure)"
  using assms by (auto simp: Resize_def Let_def)

lemma roundRatio_halfUp:
  "a * b + c < 2 ^ 50 \<Longrightarrow> roundRatio env a b c = halfUp a b c"
  by (simp add: roundRatio_def halfUp_def)


lemma right_edge_beyond:
  "0 \<le> X (MinPt (Bounds srcImg)) \<Longrightarrow> w < Dx (Bounds srcImg) \<Longrightarrow>
   w < X (MaxPt (Bounds srcImg))"
  by (simp add: Dx_def)


section \<open>The examples, evaluated\<close>

lemma Atoi_examples:
  "Atoi ''0'' = (0, None)" "Atoi ''100'' = (100, None)" "Atoi ''80'' = (80, None)"
  "Atoi ''-3'' = (- 3, None)" "Atoi [] = (0, Some (ErrSyntax []))"
  by (simp_all add: Atoi_def ParseInt_def digitVal_def)

lemma Atoi_overflow_example:
  "Atoi ''99999999999999999999x'' = (9223372036854775807, Some (ErrRange ''99999999999999999999x''))"
proof -
  have "maxUint64 < decimalValue (digitRun ''99999999999999999999x'')"
    by (simp add: digitRun_def decimalValue_def isDigit_def maxUint64_def)
  from Atoi_range [OF this] show ?thesis by simp
qed

lemma validated_example_width:
  "Contains ''images.story.io'' path \<Longrightarrow> validated (exampleRequest path [''width'' \<mapsto> ''100''])"
  by (simp add: validated_def exampleRequest_def requestWidth_def mapIndex_def Atoi_examples)

lemma Path_exampleRequest: "Path (exampleRequest path params) = path"
  by (simp add: exampleRequest_def)

lemma Contains_story_io: "Contains ''images.story.io'' ''story.io''"
  by (simp add: Contains_def)

lemma requestConfig_example_width:
  "requestConfig (exampleRequest path [''width'' \<mapsto> ''100''])
     = \<lparr>Bucket = bucketName, ObjectKey = path, Width = 100, Height = 0\<rparr>"
  by (simp add: requestConfig_def requestWidth_def requestHeight_def exampleRequest_def
      mapIndex_def Atoi_examples)

lemma Resize_example_500x400:
  "Resize exampleEnv (imageAt 0 0 500 400) 100 0 Lanczos
     = Done \<lparr>Bounds = Rect 0 0 100 80, Pix = []\<rparr>"
  by (simp add: exampleEnv_def imageAt_def Resize_def Dx_def Dy_def roundRatio_def Let_def)

lemma resizer_example_500x400:
  "resizer exampleEnv png500x400 \<lparr>Bucket = b, ObjectKey = k, Width = 100, Height = 0\<rparr>
     = Done (Inr (EncodeToString [100, 80]))"
proof -
  have d: "Decode exampleEnv png500x400 = Inr (imageAt 0 0 500 400)"
    by (simp add: exampleEnv_def exampleDecode_def)
  have e: "Encode exampleEnv \<lparr>Bounds = Rect 0 0 100 80, Pix = []\<rparr> JPEG = Inr [100, 80]"
    by (simp add: exampleEnv_def exampleEncode_def Rect_def Dx_def Dy_def)
  have m: "\<not> X (MaxPt (Bounds (imageAt 0 0 500 400))) \<le> 100"
    by (simp add: imageAt_def)
  show ?thesis
    by (simp add: resizer_def d e m Resize_example_500x400 Let_def del: EncodeToString.simps)
qed

lemma storedObject_fields:
  "S3Body (storedObject body) = body"
  "CacheControl (storedObject body) = Some ''max-age=3600''"
  "LastModified (storedObject body) = Some 0"
  "ETag (storedObject body) = Some ''abc''"
  by (simp_all add: storedObject_def)

lemma handler_example_200:
  assumes "validated req"
    and "GetObject exampleEnv bucketName (Path req) = Inr (storedObject body)"
    and "resizer exampleEnv body (requestConfig req) = Done (Inr resize)"
  shows "handler exampleEnv req
           = (Returns (exampleResponse resize) None, [S3GetObject bucketName (Path req), BodyClose])"
proof -
  have f: "FormatTime exampleEnv t layout = layout" for t layout
    by (simp add: exampleEnv_def)
  show ?thesis
    by (simp add: handler_validated [OF assms(1)] assms(2) assms(3) storedObject_fields
        exampleResponse_def f)
qed

lemma handler_example_pass_through:
  "handler exampleEnv
     (exampleRequest ''images.story.io'' [''width'' \<mapsto> ''99999999999999999999x''])
   = (Returns (exampleResponse (EncodeToString [244, 144])) None,
      [S3GetObject bucketName ''images.story.io'', BodyClose])"
proof -
  let ?req = "exampleRequest ''images.story.io'' [''width'' \<mapsto> ''99999999999999999999x'']"
  have w: "requestWidth ?req = 9223372036854775807"
    by (simp add: requestWidth_def exampleRequest_def mapIndex_def Atoi_overflow_example)
  have v: "validated ?req"
    by (simp add: validated_def w Path_exampleRequest Contains_def)
  have g: "GetObject exampleEnv bucketName (Path ?req) = Inr (storedObject png500x400)"
    by (simp add: exampleEnv_def exampleStore_def Path_exampleRequest)
  have d: "Decode exampleEnv png500x400 = Inr (imageAt 0 0 500 400)"
    by (simp add: exampleEnv_def exampleDecode_def)
  have e: "Encode exampleEnv (imageAt 0 0 500 400) JPEG = Inr [244, 144]"
    by (simp add: exampleEnv_def exampleEncode_def imageAt_def Dx_def Dy_def)
  have x: "X (MaxPt (Bounds (imageAt 0 0 500 400))) \<le> Width (requestConfig ?req)"
    by (simp add: requestConfig_def w imageAt_def)
  have r: "resizer exampleEnv png500x400 (requestConfig ?req)
      = Done (Inr (EncodeToString [244, 144]))"
    using x by (simp add: resizer_eq d e encodedImage_def del: EncodeToString.simps)
  show ?thesis
    using handler_example_200 [OF v g r] by (simp only: Path_exampleRequest)
qed

section \<open>The properties\<close>

text \<open>
  C1. The claim: a decoded picture whose width is at most the requested width is encoded
  unchanged, never enlarged. Line 63 compares \<open>b.Max.X\<close>, the right edge of the bounds,
  with the requested width, and the right edge is the width only when the bounds start at
  x = 0. The picture of the example has the bounds (10, 0) to (60, 40): it is 50 wide. With
  a requested width of 55 the comparison \<open>60 <= 55\<close> fails, and the picture is resized
  to 55 by 40 instead of being passed through as 50 by 40.
\<close>

theorem C1_offset_image_is_resized:
  "Decode exampleEnv gifOffset50x40 = Inr (imageAt 10 0 60 40)
   \<and> Dx (Bounds (imageAt 10 0 60 40)) = 50
   \<and> Dy (Bounds (imageAt 10 0 60 40)) = 40
   \<and> resizer exampleEnv gifOffset50x40
        \<lparr>Bucket = bucketName, ObjectKey = ''images.story.io'', Width = 55, Height = 40\<rparr>
       = Done (Inr (EncodeToString [55, 40]))
   \<and> Resize exampleEnv (imageAt 10 0 60 40) 55 40 Lanczos
       = Done \<lparr>Bounds = Rect 0 0 55 40, Pix = []\<rparr>
   \<and> Encode exampleEnv \<lparr>Bounds = Rect 0 0 55 40, Pix = []\<rparr> JPEG = Inr [55, 40]
   \<and> Dx (Rect 0 0 55 40) = 55
   \<and> Encode exampleEnv (imageAt 10 0 60 40) JPEG = Inr [50, 40]"
  by (simp add: resizer_def exampleEnv_def exampleDecode_def exampleEncode_def imageAt_def
      Resize_def Dx_def Dy_def Rect_def Let_def gifOffset50x40_def png500x400_def
      png50x40_def del: EncodeToString.simps)

text \<open>
  For a picture whose bounds start at x = 0 the pass-through holds as claimed: the encoder
  gets the decoded picture itself.
\<close>

lemma resizer_pass_through:
  assumes "Decode env req = Inr srcImg"
    and "X (MinPt (Bounds srcImg)) = 0"
    and "Dx (Bounds srcImg) \<le> Width config"
  shows "resizer env req config
           = (case Encode env srcImg JPEG of
                Inl err \<Rightarrow> Done (Inl err)
              | Inr buf \<Rightarrow> Done (Inr (EncodeToString buf)))"
  using assms by (simp add: resizer_def Dx_def Let_def)

text \<open>
  C2. The claim: a picture wider than the requested width comes out with exactly the
  requested width and height, for every validated request, also with height 0. With
  width 100 and no height, the validated request of the example turns a picture of 500 by
  400 into one of 100 by 80, not 100 by 0: \<open>imaging.Resize\<close> replaces a target of 0 by
  the value that keeps the aspect ratio.
\<close>

theorem C2_counterexample:
  "validated (exampleRequest ''images.story.io'' [''width'' \<mapsto> ''100''])
   \<and> requestWidth (exampleRequest ''images.story.io'' [''width'' \<mapsto> ''100'']) = 100
   \<and> requestHeight (exampleRequest ''images.story.io'' [''width'' \<mapsto> ''100'']) = 0
   \<and> GetObject exampleEnv bucketName ''images.story.io'' = Inr (storedObject png500x400)
   \<and> Decode exampleEnv png500x400 = Inr (imageAt 0 0 500 400)
   \<and> Dx (Bounds (imageAt 0 0 500 400)) = 500
   \<and> resizer exampleEnv png500x400
        (requestConfig (exampleRequest ''images.story.io'' [''width'' \<mapsto> ''100'']))
       = Done (Inr (EncodeToString [100, 80]))
   \<and> Resize exampleEnv (imageAt 0 0 500 400) 100 0 Lanczos
       = Done \<lparr>Bounds = Rect 0 0 100 80, Pix = []\<rparr>
   \<and> Encode exampleEnv \<lparr>Bounds = Rect 0 0 100 80, Pix = []\<rparr> JPEG = Inr [100, 80]
   \<and> Dx (Rect 0 0 100 80) = 100
   \<and> Dy (Rect 0 0 100 80) = 80
   \<and> Dy (Rect 0 0 100 80)
       \<noteq> requestHeight (exampleRequest ''images.story.io'' [''width'' \<mapsto> ''100''])"
proof -
  have v: "validated (exampleRequest ''images.story.io'' [''width'' \<mapsto> ''100''])"
    by (rule validated_example_width) (simp add: Contains_def)
  have c: "requestConfig (exampleRequest ''images.story.io'' [''width'' \<mapsto> ''100''])
      = \<lparr>Bucket = bucketName, ObjectKey = ''images.story.io'', Width = 100, Height = 0\<rparr>"
    by (rule requestConfig_example_width)
  have w: "requestWidth (exampleRequest ''images.story.io'' [''width'' \<mapsto> ''100'']) = 100"
    and h: "requestHeight (exampleRequest ''images.story.io'' [''width'' \<mapsto> ''100'']) = 0"
    using c by (simp_all add: requestConfig_def)
  have g: "GetObject exampleEnv bucketName ''images.story.io'' = Inr (storedObject png500x400)"
    by (simp add: exampleEnv_def exampleStore_def)
  have rest: "Decode exampleEnv png500x400 = Inr (imageAt 0 0 500 400)
   \<and> Dx (Bounds (imageAt 0 0 500 400)) = 500
   \<and> Encode exampleEnv \<lparr>Bounds = Rect 0 0 100 80, Pix = []\<rparr> JPEG = Inr [100, 80]
   \<and> Dx (Rect 0 0 100 80) = 100
   \<and> Dy (Rect 0 0 100 80) = 80"
    by (simp add: exampleEnv_def exampleDecode_def exampleEncode_def imageAt_def
      Dx_def Dy_def Rect_def)
  show ?thesis
    using v w h g rest
    by (simp add: c resizer_example_500x400 Resize_example_500x400 del: EncodeToString.simps)
qed

text \<open>
  C2, amended. For a decoded picture of positive height that is wider than the requested
  width and whose right edge lies beyond it too (as it does whenever the bounds do not
  start left of x = 0: \<open>right_edge_beyond\<close>), for non-negative requested sizes of which
  one is positive, and a target that can be allocated: \<open>Resize\<close> returns, the resizer
  encodes its result as JPEG, and the resized picture starts at the origin and has the
  requested width and height where they are positive; a requested 0 is replaced by the
  aspect-preserving value rounded half up, at least 1 (\<open>targetWidth\<close>,
  \<open>targetHeight\<close>). Where a 0 is requested the numbers stay in the range in which the
  library's floating-point rounding is exact (\<open>floatExact\<close>).
\<close>

theorem C2_resize_dimensions:
  assumes "Decode env req = Inr srcImg"
    and "Width config < X (MaxPt (Bounds srcImg))"
    and "0 < Dy (Bounds srcImg)"
    and "Width config < Dx (Bounds srcImg)"
    and "0 \<le> Width config" and "0 \<le> Height config"
    and "0 < Width config \<or> 0 < Height config"
    and "floatExact srcImg config"
    and "allocates env srcImg (targetWidth srcImg config) (targetHeight srcImg config)"
  shows "\<exists>dstImg.
           Resize env srcImg (Width config) (Height config) Lanczos = Done dstImg
         \<and> resizer env req config
             = (case Encode env dstImg JPEG of
                  Inl err \<Rightarrow> Done (Inl err)
                | Inr buf \<Rightarrow> Done (Inr (EncodeToString buf)))
         \<and> MinPt (Bounds dstImg) = \<lparr>X = 0, Y = 0\<rparr>
         \<and> Dx (Bounds dstImg) = targetWidth srcImg config
         \<and> Dy (Bounds dstImg) = targetHeight srcImg config
         \<and> (0 < Width config \<and> 0 < Height config \<longrightarrow>
              Dx (Bounds dstImg) = Width config \<and> Dy (Bounds dstImg) = Height config)"
proof -
  let ?sw = "Dx (Bounds srcImg)" and ?sh = "Dy (Bounds srcImg)"
  let ?dw = "targetWidth srcImg config" and ?dh = "targetHeight srcImg config"
  have sw: "0 < ?sw" using assms(4,5) by simp
  have edge: "\<not> X (MaxPt (Bounds srcImg)) \<le> Width config"
    using assms(2) by simp
  have dw: "?dw = (if Width config = 0 then max 1 (roundRatio env (Height config) ?sw ?sh)
                   else Width config)"
    using assms(8) by (simp add: targetWidth_def floatExact_def roundRatio_halfUp)
  have dh: "?dh = (if Height config = 0 then max 1 (roundRatio env (Width config) ?sh ?sw)
                   else Height config)"
    using assms(8) by (simp add: targetHeight_def floatExact_def roundRatio_halfUp)
  define dstImg where
    "dstImg = \<lparr>Bounds = Rect 0 0 ?dw ?dh, Pix = resample env srcImg ?dw ?dh Lanczos\<rparr>"
  have r: "Resize env srcImg (Width config) (Height config) Lanczos = Done dstImg"
    using Resize_Done [OF sw assms(3) assms(5) assms(6) assms(7) dw dh, of Lanczos] assms(9)
    by (simp add: dstImg_def)
  have z: "resizer env req config
             = (case Encode env dstImg JPEG of
                  Inl err \<Rightarrow> Done (Inl err)
                | Inr buf \<Rightarrow> Done (Inr (EncodeToString buf)))"
    using assms(1) edge by (simp add: resizer_def Let_def r)
  have "0 \<le> ?dw" and "0 \<le> ?dh"
    using assms(5,6) by (auto simp: targetWidth_def targetHeight_def)
  from Rect_origin [OF this]
  have b: "MinPt (Bounds dstImg) = \<lparr>X = 0, Y = 0\<rparr> \<and> Dx (Bounds dstImg) = ?dw
      \<and> Dy (Bounds dstImg) = ?dh"
    by (simp add: dstImg_def)
  have "0 < Width config \<and> 0 < Height config \<longrightarrow> ?dw = Width config \<and> ?dh = Height config"
    by (simp add: targetWidth_def targetHeight_def)
  with r z b show ?thesis by auto
qed

theorem C2_witness:
  "(\<exists>dstImg. Resize exampleEnv (imageAt 0 0 500 400) 100 80 Lanczos = Done dstImg
       \<and> Dx (Bounds dstImg) = 100 \<and> Dy (Bounds dstImg) = 80)
   \<and> (\<exists>dstImg. Resize exampleEnv (imageAt 0 0 500 400) 100 0 Lanczos = Done dstImg
       \<and> Dx (Bounds dstImg) = 100 \<and> Dy (Bounds dstImg) = 80)
   \<and> (\<exists>dstImg. Resize exampleEnv (imageAt 10 0 60 40) 40 30 Lanczos = Done dstImg
       \<and> Dx (Bounds dstImg) = 40 \<and> Dy (Bounds dstImg) = 30)"
proof -
  let ?img = "imageAt 0 0 500 400"
  have d: "Decode exampleEnv png500x400 = Inr ?img"
    by (simp add: exampleEnv_def exampleDecode_def)
  have m: "X (MaxPt (Bounds ?img)) = 500" by (simp add: imageAt_def)
  have x: "Dx (Bounds ?img) = 500" and y: "Dy (Bounds ?img) = 400"
    by (simp_all add: imageAt_def Dx_def Dy_def)
  let ?gif = "imageAt 10 0 60 40"
  have dg: "Decode exampleEnv gifOffset50x40 = Inr ?gif"
    by (simp add: exampleEnv_def exampleDecode_def gifOffset50x40_def png500x400_def
        png50x40_def)
  have mg: "X (MaxPt (Bounds ?gif)) = 60" by (simp add: imageAt_def)
  have xg: "Dx (Bounds ?gif) = 50" and yg: "Dy (Bounds ?gif) = 40"
    by (simp_all add: imageAt_def Dx_def Dy_def)
  have al: "allocates exampleEnv img w h = (w * h \<le> 2 ^ 24)" for img w h
    by (simp add: exampleEnv_def)
  have a: "\<exists>dstImg. Resize exampleEnv ?img 100 80 Lanczos = Done dstImg
       \<and> Dx (Bounds dstImg) = 100 \<and> Dy (Bounds dstImg) = 80"
    using C2_resize_dimensions [of exampleEnv png500x400 ?img
        "\<lparr>Bucket = bucketName, ObjectKey = ''k'', Width = 100, Height = 80\<rparr>", OF d]
    by (auto simp add: m x y al floatExact_def targetWidth_def targetHeight_def)
  have b: "\<exists>dstImg. Resize exampleEnv ?img 100 0 Lanczos = Done dstImg
       \<and> Dx (Bounds dstImg) = 100 \<and> Dy (Bounds dstImg) = 80"
    using C2_resize_dimensions [of exampleEnv png500x400 ?img
        "\<lparr>Bucket = bucketName, ObjectKey = ''k'', Width = 100, Height = 0\<rparr>", OF d]
    by (auto simp add: m x y al floatExact_def targetWidth_def targetHeight_def halfUp_def)
  have c: "\<exists>dstImg. Resize exampleEnv ?gif 40 30 Lanczos = Done dstImg
       \<and> Dx (Bounds dstImg) = 40 \<and> Dy (Bounds dstImg) = 30"
    using C2_resize_dimensions [of exampleEnv gifOffset50x40 ?gif
        "\<lparr>Bucket = bucketName, ObjectKey = ''k'', Width = 40, Height = 30\<rparr>", OF dg]
    by (auto simp add: mg xg yg al floatExact_def targetWidth_def targetHeight_def)
  from a b c show ?thesis by blast
qed

text \<open>
  C3. The claim: a path that is not a member of the allow-list gets 400 and the store is
  never asked. The check of line 91 tests whether the path occurs inside the joined
  allow-list, so a path that is a piece of an allowed host passes: for the path
  \<open>story.io\<close>, which is not in the list, the handler asks the store for the object, and
  its answer is never 400, whatever the store does.
\<close>

theorem C3_substring_path_reaches_the_store:
  "''story.io'' \<notin> set [''images.story.io'']
   \<and> (\<exists>evs. snd (handler env (exampleRequest ''story.io'' [''width'' \<mapsto> ''100'']))
              = S3GetObject bucketName ''story.io'' # evs)
   \<and> (case fst (handler env (exampleRequest ''story.io'' [''width'' \<mapsto> ''100''])) of
         Returns r e \<Rightarrow> StatusCode r \<noteq> 400
       | Panics p \<Rightarrow> True)"
proof -
  let ?req = "exampleRequest ''story.io'' [''width'' \<mapsto> ''100'']"
  have v: "validated ?req"
    by (rule validated_example_width [OF Contains_story_io])
  have p: "Path ?req = ''story.io''" by (simp add: exampleRequest_def)
  show ?thesis
    unfolding handler_validated [OF v] p
    by (simp add: errResponse_def StatusNotFound_def StatusInternalServerError_def
        split: sum.splits option.splits Call.splits)
qed

text \<open>
  C4. The claim: the path \<open>/images.story.io\<close> with width 100 and height 80 gives 200 and
  a picture of 100 by 80. The joined allow-list \<open>images.story.io\<close> does not contain the
  path with its leading slash, so the handler answers 400 (Bad Request) and never asks the
  store, whatever the store holds.
\<close>

theorem C4_leading_slash_is_rejected:
  "handler env (exampleRequest ''/images.story.io'' [''width'' \<mapsto> ''100'', ''height'' \<mapsto> ''80''])
     = (Returns (errResponse StatusBadRequest) None, [])
   \<and> StatusCode (errResponse StatusBadRequest) = 400
   \<and> Body (errResponse StatusBadRequest) = ''Bad Request''"
proof -
  have "\<not> Contains (Join [''images.story.io''] '','') ''/images.story.io''"
    by (simp add: Contains_def)
  then have "\<not> Contains (Join [''images.story.io''] '','')
      (Path (exampleRequest ''/images.story.io'' [''width'' \<mapsto> ''100'', ''height'' \<mapsto> ''80'']))"
    by (simp add: exampleRequest_def)
  from handler_rejects_host [OF this] show ?thesis
    by (simp add: errResponse_def StatusBadRequest_def StatusText_def statusText_def)
qed

text \<open>
  Without the slash the same request passes the check, and the example store and codec
  give the answer of the scenario: 200, and a body that decodes to the encoding of a
  picture of 100 by 80.
\<close>

lemma scenario_B_without_slash:
  "handler exampleEnv
     (exampleRequest ''images.story.io'' [''width'' \<mapsto> ''100'', ''height'' \<mapsto> ''80''])
     = (Returns (exampleResponse (EncodeToString [100, 80])) None,
        [S3GetObject bucketName ''images.story.io'', BodyClose])
   \<and> DecodeString (EncodeToString [100, 80]) = Some [100, 80]"
proof -
  let ?req = "exampleRequest ''images.story.io'' [''width'' \<mapsto> ''100'', ''height'' \<mapsto> ''80'']"
  have c: "requestConfig ?req
      = \<lparr>Bucket = bucketName, ObjectKey = ''images.story.io'', Width = 100, Height = 80\<rparr>"
    by (simp add: requestConfig_def requestWidth_def requestHeight_def exampleRequest_def
        mapIndex_def Atoi_examples)
  have v: "validated ?req"
    using c by (simp add: validated_def requestConfig_def Contains_def Path_exampleRequest)
  have g: "GetObject exampleEnv bucketName (Path ?req) = Inr (storedObject png500x400)"
    by (simp add: exampleEnv_def exampleStore_def Path_exampleRequest)
  have r: "resizer exampleEnv png500x400 (requestConfig ?req)
      = Done (Inr (EncodeToString [100, 80]))"
    unfolding c
    by (simp add: resizer_def exampleEnv_def exampleDecode_def exampleEncode_def imageAt_def
        Resize_def Dx_def Dy_def Rect_def Let_def del: EncodeToString.simps)
  from handler_example_200 [OF v g r] show ?thesis
    by (simp add: Path_exampleRequest DecodeString_EncodeToString del: EncodeToString.simps)
qed

text \<open>
  C5. When both the width and the height of a request resolve to a value of at most 0, the
  handler answers 400 (Bad Request), whatever the path and whatever the object store holds;
  it returns a nil error and does not ask the store.
\<close>

theorem C5_nonpositive_dimensions_are_rejected:
  assumes "requestWidth req \<le> 0" and "requestHeight req \<le> 0"
  shows "handler env req = (Returns (errResponse StatusBadRequest) None, [])
         \<and> StatusCode (errResponse StatusBadRequest) = 400"
  using handler_rejects_dimensions [OF assms]
  by (simp add: errResponse_def StatusBadRequest_def)

theorem C5_witness:
  "requestWidth (exampleRequest ''images.story.io'' [''width'' \<mapsto> ''0'', ''height'' \<mapsto> ''-3'']) \<le> 0
   \<and> requestHeight (exampleRequest ''images.story.io'' [''width'' \<mapsto> ''0'', ''height'' \<mapsto> ''-3'']) \<le> 0
   \<and> handler exampleEnv
         (exampleRequest ''images.story.io'' [''width'' \<mapsto> ''0'', ''height'' \<mapsto> ''-3''])
       = (Returns (errResponse StatusBadRequest) None, [])
   \<and> StatusCode (errResponse StatusBadRequest) = 400"
proof -
  let ?req = "exampleRequest ''images.story.io'' [''width'' \<mapsto> ''0'', ''height'' \<mapsto> ''-3'']"
  have w: "requestWidth ?req \<le> 0"
    by (simp add: requestWidth_def exampleRequest_def mapIndex_def Atoi_examples)
  have h: "requestHeight ?req \<le> 0"
    by (simp add: requestHeight_def exampleRequest_def mapIndex_def Atoi_examples)
  show ?thesis
    using w h C5_nonpositive_dimensions_are_rejected [OF w h, of exampleEnv] by simp
qed

text \<open>
  C6. For a validated request whose fetch fails: when the error is an AWS error with the
  code \<open>NoSuchBucket\<close> or \<open>NoSuchKey\<close>, the handler answers 404 with the body
  \<open>Not Found\<close> and a nil error; for every other error it answers 500 with the body
  \<open>Internal Server Error\<close>, and returns the error wrapped.
\<close>

theorem C6_storage_failures:
  assumes "validated req" and "GetObject env bucketName (Path req) = Inl err"
  shows "handler env req =
     (if (\<exists>message. err = AwsError ''NoSuchBucket'' message \<or> err = AwsError ''NoSuchKey'' message)
      then (Returns \<lparr>StatusCode = 404, Headers = [''Content-Type'' \<mapsto> ''text/plain''],
                     Body = ''Not Found'', IsBase64Encoded = False\<rparr> None,
            [S3GetObject bucketName (Path req)])
      else (Returns \<lparr>StatusCode = 500, Headers = [''Content-Type'' \<mapsto> ''text/plain''],
                     Body = ''Internal Server Error'', IsBase64Encoded = False\<rparr>
              (Some (withMessage err ''WIDTH AND HEIGHT INVALID DATA'')),
            [S3GetObject bucketName (Path req)]))"
proof -
  have n: "noSuchBucketOrKey err
      = (\<exists>message. err = AwsError ''NoSuchBucket'' message \<or> err = AwsError ''NoSuchKey'' message)"
    by (cases err) (auto simp: ErrCodeNoSuchBucket_def ErrCodeNoSuchKey_def)
  have t: "errResponse StatusNotFound
      = \<lparr>StatusCode = 404, Headers = [''Content-Type'' \<mapsto> ''text/plain''],
         Body = ''Not Found'', IsBase64Encoded = False\<rparr>"
    by (simp add: errResponse_def StatusNotFound_def StatusText_def statusText_def)
  have u: "errResponse StatusInternalServerError
      = \<lparr>StatusCode = 500, Headers = [''Content-Type'' \<mapsto> ''text/plain''],
         Body = ''Internal Server Error'', IsBase64Encoded = False\<rparr>"
    by (simp add: errResponse_def StatusInternalServerError_def StatusText_def statusText_def)
  show ?thesis
    by (simp only: handler_validated [OF assms(1)] assms(2) sum.case n t u)
qed

theorem C6_witness:
  "handler exampleEnv (exampleRequest ''story.io'' [''width'' \<mapsto> ''100''])
     = (Returns \<lparr>StatusCode = 404, Headers = [''Content-Type'' \<mapsto> ''text/plain''],
                  Body = ''Not Found'', IsBase64Encoded = False\<rparr> None,
        [S3GetObject bucketName ''story.io''])
   \<and> handler exampleEnv (exampleRequest ''.'' [''width'' \<mapsto> ''100''])
     = (Returns \<lparr>StatusCode = 500, Headers = [''Content-Type'' \<mapsto> ''text/plain''],
                  Body = ''Internal Server Error'', IsBase64Encoded = False\<rparr>
          (Some (withMessage (OtherError ''connection reset'') ''WIDTH AND HEIGHT INVALID DATA'')),
        [S3GetObject bucketName ''.''])"
proof -
  have v1: "validated (exampleRequest ''story.io'' [''width'' \<mapsto> ''100''])"
    by (rule validated_example_width) (simp add: Contains_def)
  have g1: "GetObject exampleEnv bucketName (Path (exampleRequest ''story.io'' [''width'' \<mapsto> ''100'']))
      = Inl (AwsError ''NoSuchKey'' ''no such key'')"
    by (simp add: exampleEnv_def exampleStore_def Path_exampleRequest)
  have v2: "validated (exampleRequest ''.'' [''width'' \<mapsto> ''100''])"
    by (rule validated_example_width) (simp add: Contains_def)
  have g2: "GetObject exampleEnv bucketName (Path (exampleRequest ''.'' [''width'' \<mapsto> ''100'']))
      = Inl (OtherError ''connection reset'')"
    by (simp add: exampleEnv_def exampleStore_def Path_exampleRequest)
  show ?thesis
    using C6_storage_failures [OF v1 g1] C6_storage_failures [OF v2 g2]
    by (simp add: Path_exampleRequest)
qed

text \<open>
  C7. The claim: a \<open>width\<close> or \<open>height\<close> parameter that is absent or not numeric
  counts as 0. The width \<open>99999999999999999999x\<close> is not numeric, yet
  \<open>strconv.Atoi\<close> gives the largest \<open>int\<close> for it: the string has 19 characters or
  more, so \<open>ParseInt\<close> reads it, and \<open>ParseUint\<close> reports the overflow at the
  twentieth digit before it reaches the \<open>x\<close>. The handler drops the error and keeps
  the number: with this width alone the request is answered 200, with the stored picture
  passed through, where the width \<open>0\<close> alone is answered 400.
\<close>

theorem C7_counterexample:
  "\<not> isDecimal ''99999999999999999999x''
   \<and> fst (Atoi ''99999999999999999999x'') = 9223372036854775807
   \<and> handler exampleEnv
       (exampleRequest ''images.story.io'' [''width'' \<mapsto> ''99999999999999999999x''])
     = (Returns (exampleResponse (EncodeToString [244, 144])) None,
        [S3GetObject bucketName ''images.story.io'', BodyClose])
   \<and> handler exampleEnv (exampleRequest ''images.story.io'' [''width'' \<mapsto> ''0''])
     = (Returns (errResponse StatusBadRequest) None, [])"
proof -
  have "\<not> isDecimal ''99999999999999999999x''"
    by (simp add: isDecimal_def isDigit_def)
  moreover have "requestWidth (exampleRequest ''images.story.io'' [''width'' \<mapsto> ''0'']) \<le> 0
      \<and> requestHeight (exampleRequest ''images.story.io'' [''width'' \<mapsto> ''0'']) \<le> 0"
    by (simp add: requestWidth_def requestHeight_def exampleRequest_def mapIndex_def
        Atoi_examples)
  then have "handler exampleEnv (exampleRequest ''images.story.io'' [''width'' \<mapsto> ''0''])
     = (Returns (errResponse StatusBadRequest) None, [])"
    by (simp add: handler_rejects_dimensions)
  ultimately show ?thesis
    by (simp add: Atoi_overflow_example handler_example_pass_through
        del: EncodeToString.simps)
qed

text \<open>
  C7, amended. A \<open>width\<close> or \<open>height\<close> parameter that is absent or not numeric
  resolves to 0, and the handler answers exactly as it does when the parameter is the
  string \<open>0\<close>, provided the digits in front of its first other character (after an
  optional sign) do not exceed the largest unsigned 64-bit number. When they do, the
  parameter resolves to the largest \<open>int\<close>, or to the smallest one after a minus sign.
  In both cases the parse error is dropped.
\<close>

theorem C7_absent_or_non_numeric_is_zero:
  assumes "k = ''width'' \<or> k = ''height''"
    and "QueryStringParameters req k = None
         \<or> (\<exists>s. QueryStringParameters req k = Some s \<and> \<not> isDecimal s)"
  shows "(decimalValue (digitRun (mapIndex (QueryStringParameters req) k)) \<le> maxUint64 \<longrightarrow>
            fst (Atoi (mapIndex (QueryStringParameters req) k)) = 0
          \<and> handler env req
             = handler env (req\<lparr>QueryStringParameters := (QueryStringParameters req)(k \<mapsto> ''0'')\<rparr>))
       \<and> (maxUint64 < decimalValue (digitRun (mapIndex (QueryStringParameters req) k)) \<longrightarrow>
            fst (Atoi (mapIndex (QueryStringParameters req) k))
              = (if hd (mapIndex (QueryStringParameters req) k) = CHR ''-''
                 then - (2 ^ 63) else 2 ^ 63 - 1))"
proof (intro conjI impI)
  assume small: "decimalValue (digitRun (mapIndex (QueryStringParameters req) k)) \<le> maxUint64"
  have nd: "\<not> isDecimal (mapIndex (QueryStringParameters req) k)"
    using assms(2) by (rule not_decimal_parameter)
  from Atoi_syntax [OF nd small]
  show z: "fst (Atoi (mapIndex (QueryStringParameters req) k)) = 0" by simp
  let ?req' = "req\<lparr>QueryStringParameters := (QueryStringParameters req)(k \<mapsto> ''0'')\<rparr>"
  have "requestWidth req = requestWidth ?req' \<and> requestHeight req = requestHeight ?req'"
    using assms(1) z
    by (auto simp: requestWidth_def requestHeight_def mapIndex_def Atoi_examples)
  then show "handler env req = handler env ?req'"
    by (intro handler_cong) simp_all
next
  assume "maxUint64 < decimalValue (digitRun (mapIndex (QueryStringParameters req) k))"
  from Atoi_range [OF this]
  show "fst (Atoi (mapIndex (QueryStringParameters req) k))
      = (if hd (mapIndex (QueryStringParameters req) k) = CHR ''-''
         then - (2 ^ 63) else 2 ^ 63 - 1)"
    by simp
qed

theorem C7_witness:
  "fst (Atoi (mapIndex [''width'' \<mapsto> ''12px'', ''height'' \<mapsto> ''80''] ''width'')) = 0
   \<and> handler exampleEnv (exampleRequest ''images.story.io'' [''width'' \<mapsto> ''12px'', ''height'' \<mapsto> ''80''])
     = handler exampleEnv (exampleRequest ''images.story.io'' [''width'' \<mapsto> ''0'', ''height'' \<mapsto> ''80''])
   \<and> fst (Atoi (mapIndex [''width'' \<mapsto> ''100''] ''height'')) = 0
   \<and> handler exampleEnv (exampleRequest ''images.story.io'' [''width'' \<mapsto> ''100''])
     = handler exampleEnv (exampleRequest ''images.story.io'' [''width'' \<mapsto> ''100'', ''height'' \<mapsto> ''0''])
   \<and> fst (Atoi (mapIndex [''width'' \<mapsto> ''-99999999999999999999px''] ''width''))
     = - 9223372036854775808"
proof -
  let ?r1 = "exampleRequest ''images.story.io'' [''width'' \<mapsto> ''12px'', ''height'' \<mapsto> ''80'']"
  let ?r2 = "exampleRequest ''images.story.io'' [''width'' \<mapsto> ''100'']"
  let ?r3 = "exampleRequest ''images.story.io'' [''width'' \<mapsto> ''-99999999999999999999px'']"
  have a: "QueryStringParameters ?r1 ''width'' = None
         \<or> (\<exists>s. QueryStringParameters ?r1 ''width'' = Some s \<and> \<not> isDecimal s)"
    by (simp add: exampleRequest_def isDecimal_def isDigit_def)
  have b: "QueryStringParameters ?r2 ''height'' = None
         \<or> (\<exists>s. QueryStringParameters ?r2 ''height'' = Some s \<and> \<not> isDecimal s)"
    by (simp add: exampleRequest_def)
  have c: "QueryStringParameters ?r3 ''width'' = None
         \<or> (\<exists>s. QueryStringParameters ?r3 ''width'' = Some s \<and> \<not> isDecimal s)"
    by (simp add: exampleRequest_def isDecimal_def isDigit_def)
  have sa: "decimalValue (digitRun (mapIndex (QueryStringParameters ?r1) ''width'')) \<le> maxUint64"
    by (simp add: exampleRequest_def mapIndex_def digitRun_def decimalValue_def isDigit_def
        maxUint64_def)
  have sb: "decimalValue (digitRun (mapIndex (QueryStringParameters ?r2) ''height'')) \<le> maxUint64"
    by (simp add: exampleRequest_def mapIndex_def digitRun_def decimalValue_def)
  have sc: "maxUint64 < decimalValue (digitRun (mapIndex (QueryStringParameters ?r3) ''width''))"
    by (simp add: exampleRequest_def mapIndex_def digitRun_def decimalValue_def isDigit_def
        maxUint64_def)
  have m1: "[''width'' \<mapsto> ''12px'', ''height'' \<mapsto> ''80'', ''width'' \<mapsto> ''0'']
      = [''width'' \<mapsto> ''0'', ''height'' \<mapsto> ''80'']"
    by (rule ext) simp
  have 1: "fst (Atoi (mapIndex (QueryStringParameters ?r1) ''width'')) = 0
      \<and> handler exampleEnv ?r1
        = handler exampleEnv (?r1\<lparr>QueryStringParameters := (QueryStringParameters ?r1)(''width'' \<mapsto> ''0'')\<rparr>)"
    using C7_absent_or_non_numeric_is_zero [of "''width''" ?r1 exampleEnv, OF _ a] sa by blast
  have 2: "fst (Atoi (mapIndex (QueryStringParameters ?r2) ''height'')) = 0
      \<and> handler exampleEnv ?r2
        = handler exampleEnv (?r2\<lparr>QueryStringParameters := (QueryStringParameters ?r2)(''height'' \<mapsto> ''0'')\<rparr>)"
    using C7_absent_or_non_numeric_is_zero [of "''height''" ?r2 exampleEnv, OF _ b] sb by blast
  have 3: "fst (Atoi (mapIndex (QueryStringParameters ?r3) ''width''))
      = (if hd (mapIndex (QueryStringParameters ?r3) ''width'') = CHR ''-''
         then - (2 ^ 63) else 2 ^ 63 - 1)"
    using C7_absent_or_non_numeric_is_zero [of "''width''" ?r3 exampleEnv, OF _ c] sc by blast
  have n3: "fst (Atoi (mapIndex [''width'' \<mapsto> ''-99999999999999999999px''] ''width''))
     = - 9223372036854775808"
    using 3 by (simp add: exampleRequest_def mapIndex_def)
  show ?thesis
    using 1 2 n3 by (simp add: exampleRequest_def m1)
qed




text \<open>
  C9. When the fetch and the resize succeed and the answer of the store carries no
  Cache-Control or no ETag (a nil pointer), the handler does not return a response: it
  panics with a nil-pointer dereference, after the fetch and with the body closed.
\<close>

theorem C9_missing_metadata_panics:
  assumes "validated req"
    and "GetObject env bucketName (Path req) = Inr resp"
    and "resizer env (S3Body resp) (requestConfig req) = Done (Inr resize)"
    and "CacheControl resp = None \<or> ETag resp = None"
  shows "handler env req
           = (Panics NilPointerDereference, [S3GetObject bucketName (Path req), BodyClose])"
  using assms(4)
  by (auto simp: handler_validated [OF assms(1)] assms(2) assms(3) split: option.splits)

theorem C9_witness:
  "CacheControl ((storedObject png500x400)\<lparr>CacheControl := None\<rparr>) = None
   \<and> handler exampleEnv (exampleRequest ''io'' [''width'' \<mapsto> ''100''])
       = (Panics NilPointerDereference, [S3GetObject bucketName ''io'', BodyClose])"
proof -
  let ?req = "exampleRequest ''io'' [''width'' \<mapsto> ''100'']"
  let ?resp = "(storedObject png500x400)\<lparr>CacheControl := None\<rparr>"
  have v: "validated ?req"
    by (rule validated_example_width) (simp add: Contains_def)
  have g: "GetObject exampleEnv bucketName (Path ?req) = Inr ?resp"
    by (simp add: exampleEnv_def exampleStore_def Path_exampleRequest)
  have r: "resizer exampleEnv (S3Body ?resp) (requestConfig ?req)
      = Done (Inr (EncodeToString [100, 80]))"
    by (simp add: requestConfig_example_width storedObject_def resizer_example_500x400
        del: EncodeToString.simps)
  have c: "CacheControl ?resp = None \<or> ETag ?resp = None" by simp
  show ?thesis
    using C9_missing_metadata_panics [OF v g r c] by (simp add: Path_exampleRequest)
qed

text \<open>
  C10. A request rejected by one of the two checks gets the 400 response with a nil error
  (\<open>WithMessage\<close> of a nil cause is nil). A storage failure other than a missing bucket
  or key, and a failure of the decoder or of the encoder, get the 500 response together
  with a non-nil error: the cause, wrapped.
\<close>

theorem C10_error_values:
  "(\<not> Contains (Join [''images.story.io''] '','') (Path req)
      \<or> (requestWidth req \<le> 0 \<and> requestHeight req \<le> 0)
    \<longrightarrow> handler env req = (Returns (errResponse StatusBadRequest) None, []))
   \<and> (validated req \<and> GetObject env bucketName (Path req) = Inl err
       \<and> (\<forall>message. err \<noteq> AwsError ''NoSuchBucket'' message
                    \<and> err \<noteq> AwsError ''NoSuchKey'' message)
    \<longrightarrow> fst (handler env req)
          = Returns (errResponse StatusInternalServerError)
              (Some (withMessage err ''WIDTH AND HEIGHT INVALID DATA'')))
   \<and> (validated req \<and> GetObject env bucketName (Path req) = Inr resp
       \<and> (Decode env (S3Body resp) = Inl err
          \<or> (\<exists>srcImg img. Decode env (S3Body resp) = Inr srcImg
                \<and> encodedImage env srcImg (requestConfig req) = Done img
                \<and> Encode env img JPEG = Inl err))
    \<longrightarrow> fst (handler env req)
          = Returns (errResponse StatusInternalServerError)
              (Some (withMessage err ''RESIZE PARSING ERROR'')))
   \<and> WithMessage None message = None
   \<and> StatusCode (errResponse StatusBadRequest) = 400
   \<and> StatusCode (errResponse StatusInternalServerError) = 500"
proof (intro conjI impI)
  assume "\<not> Contains (Join [''images.story.io''] '','') (Path req)
      \<or> (requestWidth req \<le> 0 \<and> requestHeight req \<le> 0)"
  then show "handler env req = (Returns (errResponse StatusBadRequest) None, [])"
    using handler_rejects_host handler_rejects_dimensions by blast
next
  assume a: "validated req \<and> GetObject env bucketName (Path req) = Inl err
       \<and> (\<forall>message. err \<noteq> AwsError ''NoSuchBucket'' message
                    \<and> err \<noteq> AwsError ''NoSuchKey'' message)"
  then have "\<not> noSuchBucketOrKey err"
    by (cases err) (auto simp: ErrCodeNoSuchBucket_def ErrCodeNoSuchKey_def)
  with a show "fst (handler env req)
          = Returns (errResponse StatusInternalServerError)
              (Some (withMessage err ''WIDTH AND HEIGHT INVALID DATA''))"
    by (simp add: handler_validated)
next
  assume a: "validated req \<and> GetObject env bucketName (Path req) = Inr resp
       \<and> (Decode env (S3Body resp) = Inl err
          \<or> (\<exists>srcImg img. Decode env (S3Body resp) = Inr srcImg
                \<and> encodedImage env srcImg (requestConfig req) = Done img
                \<and> Encode env img JPEG = Inl err))"
  then have "resizer env (S3Body resp) (requestConfig req) = Done (Inl err)"
    by (auto simp: resizer_eq)
  with a show "fst (handler env req)
          = Returns (errResponse StatusInternalServerError)
              (Some (withMessage err ''RESIZE PARSING ERROR''))"
    by (simp add: handler_validated)
qed (simp_all add: errResponse_def StatusBadRequest_def StatusInternalServerError_def)

theorem C10_witness:
  "handler exampleEnv (exampleRequest ''/images.story.io'' [''width'' \<mapsto> ''100''])
     = (Returns (errResponse StatusBadRequest) None, [])
   \<and> fst (handler exampleEnv (exampleRequest ''.'' [''width'' \<mapsto> ''100'']))
     = Returns (errResponse StatusInternalServerError)
         (Some (withMessage (OtherError ''connection reset'') ''WIDTH AND HEIGHT INVALID DATA''))
   \<and> fst (handler exampleEnv (exampleRequest ''story'' [''width'' \<mapsto> ''100'']))
     = Returns (errResponse StatusInternalServerError)
         (Some (withMessage (OtherError ''image: unknown format'') ''RESIZE PARSING ERROR''))
   \<and> handler exampleEnv
         (exampleRequest ''images.story.io'' [''width'' \<mapsto> ''0'', ''height'' \<mapsto> ''-3''])
     = (Returns (errResponse StatusBadRequest) None, [])
   \<and> fst (handler failingEncodeEnv (exampleRequest ''images.story.io'' [''width'' \<mapsto> ''100'']))
     = Returns (errResponse StatusInternalServerError)
         (Some (withMessage (OtherError ''jpeg: image is too large to encode'')
            ''RESIZE PARSING ERROR''))"
proof -
  let ?r1 = "exampleRequest ''/images.story.io'' [''width'' \<mapsto> ''100'']"
  let ?r2 = "exampleRequest ''.'' [''width'' \<mapsto> ''100'']"
  let ?r3 = "exampleRequest ''story'' [''width'' \<mapsto> ''100'']"
  let ?r4 = "exampleRequest ''images.story.io'' [''width'' \<mapsto> ''0'', ''height'' \<mapsto> ''-3'']"
  let ?r5 = "exampleRequest ''images.story.io'' [''width'' \<mapsto> ''100'']"
  have h1: "\<not> Contains (Join [''images.story.io''] '','') (Path ?r1)
      \<or> (requestWidth ?r1 \<le> 0 \<and> requestHeight ?r1 \<le> 0)"
    by (simp add: Path_exampleRequest Contains_def)
  have h2: "validated ?r2 \<and> GetObject exampleEnv bucketName (Path ?r2) = Inl (OtherError ''connection reset'')
       \<and> (\<forall>message. OtherError ''connection reset'' \<noteq> AwsError ''NoSuchBucket'' message
                    \<and> OtherError ''connection reset'' \<noteq> AwsError ''NoSuchKey'' message)"
    using validated_example_width [of "''.''"]
    by (simp add: Contains_def exampleEnv_def exampleStore_def Path_exampleRequest)
  have h3: "validated ?r3 \<and> GetObject exampleEnv bucketName (Path ?r3) = Inr (storedObject corruptBytes)
       \<and> (Decode exampleEnv (S3Body (storedObject corruptBytes)) = Inl (OtherError ''image: unknown format'')
          \<or> (\<exists>srcImg img. Decode exampleEnv (S3Body (storedObject corruptBytes)) = Inr srcImg
                \<and> encodedImage exampleEnv srcImg (requestConfig ?r3) = Done img
                \<and> Encode exampleEnv img JPEG = Inl (OtherError ''image: unknown format'')))"
    using validated_example_width [of "''story''"]
    by (simp add: Contains_def exampleEnv_def exampleStore_def Path_exampleRequest
        storedObject_def exampleDecode_def corruptBytes_def png500x400_def png50x40_def
        gifOffset50x40_def)
  from C10_error_values [where req = ?r1 and env = exampleEnv] h1
  have "handler exampleEnv ?r1 = (Returns (errResponse StatusBadRequest) None, [])" by blast
  moreover from C10_error_values [where req = ?r2 and env = exampleEnv
      and err = "OtherError ''connection reset''"] h2
  have "fst (handler exampleEnv ?r2) = Returns (errResponse StatusInternalServerError)
         (Some (withMessage (OtherError ''connection reset'') ''WIDTH AND HEIGHT INVALID DATA''))"
    by blast
  moreover from C10_error_values [where req = ?r3 and env = exampleEnv
      and resp = "storedObject corruptBytes" and err = "OtherError ''image: unknown format''"] h3
  have "fst (handler exampleEnv ?r3) = Returns (errResponse StatusInternalServerError)
         (Some (withMessage (OtherError ''image: unknown format'') ''RESIZE PARSING ERROR''))"
    by blast
  moreover have "handler exampleEnv ?r4 = (Returns (errResponse StatusBadRequest) None, [])"
  proof -
    have "\<not> Contains (Join [''images.story.io''] '','') (Path ?r4)
        \<or> (requestWidth ?r4 \<le> 0 \<and> requestHeight ?r4 \<le> 0)"
      by (simp add: requestWidth_def requestHeight_def exampleRequest_def mapIndex_def
          Atoi_examples)
    with C10_error_values [where req = ?r4 and env = exampleEnv] show ?thesis by blast
  qed
  moreover have "fst (handler failingEncodeEnv ?r5) = Returns (errResponse StatusInternalServerError)
         (Some (withMessage (OtherError ''jpeg: image is too large to encode'')
            ''RESIZE PARSING ERROR''))"
  proof -
    have v: "validated ?r5"
      using validated_example_width [of "''images.story.io''"] by (simp add: Contains_def)
    have g: "GetObject failingEncodeEnv bucketName (Path ?r5) = Inr (storedObject png500x400)"
      by (simp add: failingEncodeEnv_def exampleEnv_def exampleStore_def Path_exampleRequest)
    have d: "Decode failingEncodeEnv (S3Body (storedObject png500x400))
        = Inr (imageAt 0 0 500 400)"
      by (simp add: failingEncodeEnv_def exampleEnv_def storedObject_def exampleDecode_def)
    have r: "Resize failingEncodeEnv (imageAt 0 0 500 400) 100 0 Lanczos
        = Done \<lparr>Bounds = Rect 0 0 100 80, Pix = []\<rparr>"
      by (simp add: failingEncodeEnv_def exampleEnv_def imageAt_def Resize_def Dx_def Dy_def
          roundRatio_def Let_def)
    have x: "\<not> X (MaxPt (Bounds (imageAt 0 0 500 400))) \<le> 100" by (simp add: imageAt_def)
    have ei: "encodedImage failingEncodeEnv (imageAt 0 0 500 400) (requestConfig ?r5)
        = Done \<lparr>Bounds = Rect 0 0 100 80, Pix = []\<rparr>"
      using x by (simp add: encodedImage_def requestConfig_example_width r)
    have en: "Encode failingEncodeEnv \<lparr>Bounds = Rect 0 0 100 80, Pix = []\<rparr> JPEG
        = Inl (OtherError ''jpeg: image is too large to encode'')"
      by (simp add: failingEncodeEnv_def)
    from v g d ei en
    have "validated ?r5 \<and> GetObject failingEncodeEnv bucketName (Path ?r5)
            = Inr (storedObject png500x400)
       \<and> (Decode failingEncodeEnv (S3Body (storedObject png500x400))
            = Inl (OtherError ''jpeg: image is too large to encode'')
          \<or> (\<exists>srcImg img. Decode failingEncodeEnv (S3Body (storedObject png500x400)) = Inr srcImg
                \<and> encodedImage failingEncodeEnv srcImg (requestConfig ?r5) = Done img
                \<and> Encode failingEncodeEnv img JPEG
                    = Inl (OtherError ''jpeg: image is too large to encode'')))"
      by blast
    with C10_error_values [where req = ?r5 and env = failingEncodeEnv
        and resp = "storedObject png500x400"
        and err = "OtherError ''jpeg: image is too large to encode''"]
    show ?thesis by blast
  qed
  ultimately show ?thesis by simp
qed

end
